theory Spec2Isabelle
  imports Main "HOL-Library.Sublist"
begin

section \<open>JavaScript strings\<close>

text \<open>
  A JavaScript string is a sequence of UTF-16 code units, modelled as a list of numbers
  (a code unit is a number below 65536); \<open>lit\<close> turns a literal of ASCII characters
  into the string of its code units.
\<close>

type_synonym jsstring = "nat list"

definition lit :: "string \<Rightarrow> jsstring" where
  "lit s = map of_char s"

text \<open>
  \<open>toLowerCase\<close>. The program uses the lower-case form of a string only to test, with
  \<open>includes\<close>, whether it holds a phrase of ASCII letters and spaces. Three kinds of
  code unit have ASCII in their lower-case form: the letters \<open>A\<close> to \<open>Z\<close>, the Kelvin
  sign U+212A (lower case \<open>k\<close>) and the dotted capital I U+0130 (lower case \<open>i\<close>
  followed by U+0307). They are mapped as JavaScript maps them. Every other code unit is
  kept: where JavaScript changes it, it changes it into code units outside ASCII, and no
  test of the program tells the two apart.
\<close>

definition lowerUnit :: "nat \<Rightarrow> jsstring" where
  "lowerUnit n =
     (if 65 \<le> n \<and> n \<le> 90 then [n + 32]
      else if n = 0x212A then [107]
      else if n = 0x0130 then [105, 0x0307]
      else [n])"

definition toLowerCase :: "jsstring \<Rightarrow> jsstring" where
  "toLowerCase s = concat (map lowerUnit s)"

text \<open>
  \<open>s.includes(p)\<close>: \<open>p\<close> occurs in \<open>s\<close> as a contiguous substring (the name
  \<open>includes\<close> is a reserved word of Isabelle).
\<close>

fun includes_str :: "jsstring \<Rightarrow> jsstring \<Rightarrow> bool" where
  "includes_str [] p = (p = [])"
| "includes_str (c # cs) p = (prefix p (c # cs) \<or> includes_str cs p)"

text \<open>
  The white space of \<open>trim\<close> and of the class \<open>\s\<close> of a regular expression: the
  white space and the line terminators of the language, which are tab, line feed,
  vertical tab, form feed, carriage return, space, no-break space, U+1680, U+2000 to
  U+200A, the line and paragraph separators U+2028 and U+2029, U+202F, U+205F, U+3000
  and the byte order mark U+FEFF.
\<close>

definition isWhiteSpace :: "nat \<Rightarrow> bool" where
  "isWhiteSpace n =
     ((9 \<le> n \<and> n \<le> 13) \<or> n = 32 \<or> n = 0xA0 \<or> n = 0x1680
      \<or> (0x2000 \<le> n \<and> n \<le> 0x200A) \<or> n = 0x2028 \<or> n = 0x2029 \<or> n = 0x202F
      \<or> n = 0x205F \<or> n = 0x3000 \<or> n = 0xFEFF)"

definition trim :: "jsstring \<Rightarrow> jsstring" where
  "trim s = rev (dropWhile isWhiteSpace (rev (dropWhile isWhiteSpace s)))"

text \<open>
  \<open>s.replace(/k1|k2|...|kn/gi, '')\<close> for literal, non-empty, lower-case ASCII
  alternatives: the scan goes left to right; where an alternative matches (the first in
  the order written) the match is dropped and the scan goes on after it, and otherwise
  the code unit is kept. Without the flag \<open>u\<close>, the flag \<open>i\<close> lets an ASCII letter of
  the pattern match its two ASCII cases and nothing else, which is what \<open>foldCase\<close>
  compares.
\<close>

definition foldCase :: "jsstring \<Rightarrow> jsstring" where
  "foldCase s = map (\<lambda>n. if 65 \<le> n \<and> n \<le> 90 then n + 32 else n) s"

fun replaceAllCI :: "jsstring list \<Rightarrow> jsstring \<Rightarrow> jsstring" where
  "replaceAllCI kws [] = []"
| "replaceAllCI kws (c # cs) =
     (case find (\<lambda>k. prefix k (foldCase (c # cs))) kws of
        Some k \<Rightarrow> replaceAllCI kws (drop (length k - 1) cs)
      | None \<Rightarrow> c # replaceAllCI kws cs)"

text \<open>
  \<open>command.match(/https?:\/\/[^\s]+/)\<close>: \<open>urlAt\<close> is the match that starts at the
  head of the string (the scheme, then the longest non-empty run of characters that are
  not white space), \<open>matchUrl\<close> the leftmost match, which is \<open>urlMatch[0]\<close>;
  \<open>None\<close> is the \<open>null\<close> of a failed match.
\<close>

definition urlAt :: "jsstring \<Rightarrow> jsstring option" where
  "urlAt s =
     (if prefix (lit ''https://'') s \<and> takeWhile (\<lambda>c. \<not> isWhiteSpace c) (drop 8 s) \<noteq> []
      then Some (lit ''https://'' @ takeWhile (\<lambda>c. \<not> isWhiteSpace c) (drop 8 s))
      else if prefix (lit ''http://'') s \<and> takeWhile (\<lambda>c. \<not> isWhiteSpace c) (drop 7 s) \<noteq> []
      then Some (lit ''http://'' @ takeWhile (\<lambda>c. \<not> isWhiteSpace c) (drop 7 s))
      else None)"

fun matchUrl :: "jsstring \<Rightarrow> jsstring option" where
  "matchUrl [] = None"
| "matchUrl (c # cs) =
     (case urlAt (c # cs) of Some u \<Rightarrow> Some u | None \<Rightarrow> matchUrl cs)"

text \<open>Decimal rendering of a number inside a template literal.\<close>

function showNat :: "nat \<Rightarrow> jsstring" where
  "showNat n =
     (if n < 10 then [48 + n] else showNat (n div 10) @ [48 + n mod 10])"
  by pat_completeness auto
termination
  by (relation "measure (\<lambda>n. n)") auto

declare showNat.simps [simp del]

definition showInt :: "int \<Rightarrow> jsstring" where
  "showInt i = (if i < 0 then 45 # showNat (nat (- i)) else showNat (nat i))"

section \<open>Intent detection of the chat sidebar\<close>

datatype editor_action = grammar | professional | casual | summarize

datatype intent =
    editor_modify editor_action
  | create_and_insert
  | search bool
  | editor_insert
  | chat

definition detectIntent :: "jsstring \<Rightarrow> intent" where
  "detectIntent message =
     (let lower = toLowerCase message in
      if includes_str lower (lit ''fix grammar'') \<or> includes_str lower (lit ''correct'')
           \<or> includes_str lower (lit ''improve writing'')
      then editor_modify grammar
      else if includes_str lower (lit ''make professional'') \<or> includes_str lower (lit ''formal tone'')
      then editor_modify professional
      else if includes_str lower (lit ''make casual'') \<or> includes_str lower (lit ''friendly tone'')
      then editor_modify casual
      else if includes_str lower (lit ''summarize'') \<or> includes_str lower (lit ''make shorter'')
      then editor_modify summarize
      else if (includes_str lower (lit ''write'') \<or> includes_str lower (lit ''create''))
                \<and> (includes_str lower (lit ''insert'') \<or> includes_str lower (lit ''add''))
      then create_and_insert
      else if includes_str lower (lit ''search'') \<or> includes_str lower (lit ''find'')
                \<or> includes_str lower (lit ''look up'')
      then search (includes_str lower (lit ''insert'') \<or> includes_str lower (lit ''add''))
      else if includes_str lower (lit ''insert'') \<or> includes_str lower (lit ''add to editor'')
      then editor_insert
      else chat)"

section \<open>JavaScript values and exceptions\<close>

text \<open>
  The values the program reads from a parsed JSON body are typed \<open>any\<close> in the source,
  so they are modelled as they arrive. Numbers are integers here: the program only tests
  them for zero and prints them.
\<close>

datatype jsval =
    JUndefined
  | JNull
  | JBool bool
  | JNum int
  | JStr jsstring
  | JArr "jsval list"
  | JObj "(jsstring \<times> jsval) list"

text \<open>Truthiness, as tested by \<open>!x\<close>, \<open>x || y\<close> and \<open>if (x)\<close>.\<close>

fun truthy :: "jsval \<Rightarrow> bool" where
  "truthy JUndefined = False"
| "truthy JNull = False"
| "truthy (JBool b) = b"
| "truthy (JNum n) = (n \<noteq> 0)"
| "truthy (JStr s) = (s \<noteq> [])"
| "truthy (JArr xs) = True"
| "truthy (JObj kvs) = True"

definition js_or :: "jsval \<Rightarrow> jsval \<Rightarrow> jsval" where
  "js_or a b = (if truthy a then a else b)"

text \<open>
  The exceptions that can be raised: \<open>Error\<close> is thrown by the program with the given
  message; \<open>FetchError\<close> is the rejection of \<open>fetch\<close> and \<open>SyntaxError\<close> the
  rejection of \<open>response.json()\<close>, both with a message chosen by the browser;
  \<open>TypeError\<close> is a property read on \<open>null\<close> or \<open>undefined\<close>, or a call of
  something that is not a function, and its message is the engine's too (the parameter
  \<open>tm\<close> of \<open>message\<close>). All of them are instances of \<open>Error\<close>.
\<close>

datatype exn = Error jsstring | FetchError jsstring | SyntaxError jsstring | TypeError

fun message :: "jsstring \<Rightarrow> exn \<Rightarrow> jsstring" where
  "message tm (Error m) = m"
| "message tm (FetchError m) = m"
| "message tm (SyntaxError m) = m"
| "message tm TypeError = tm"

definition bind_exn :: "exn + 'a \<Rightarrow> ('a \<Rightarrow> exn + 'b) \<Rightarrow> exn + 'b" where
  "bind_exn m f = (case m of Inl e \<Rightarrow> Inl e | Inr v \<Rightarrow> f v)"

text \<open>
  \<open>v.k\<close> for the property names this program reads (\<open>status\<close>, \<open>result\<close>,
  \<open>detail\<close>, \<open>query\<close>, \<open>results\<close>, \<open>summary\<close>, \<open>total_results\<close>, \<open>title\<close>,
  \<open>url\<close>, \<open>snippet\<close>, \<open>content\<close>, \<open>response\<close>): none of them is a property of an
  array, a string, a number or a boolean. In an object parsed from JSON the last of
  several equal keys wins.
\<close>

fun get_prop :: "jsval \<Rightarrow> jsstring \<Rightarrow> exn + jsval" where
  "get_prop JUndefined k = Inl TypeError"
| "get_prop JNull k = Inl TypeError"
| "get_prop (JObj kvs) k =
     Inr (case map_of (rev kvs) k of Some v \<Rightarrow> v | None \<Rightarrow> JUndefined)"
| "get_prop v k = Inr JUndefined"

text \<open>\<open>String(v)\<close>, as done by a template literal and by \<open>new Error(v)\<close>.\<close>

fun join :: "jsstring \<Rightarrow> jsstring list \<Rightarrow> jsstring" where
  "join sep [] = []"
| "join sep [x] = x"
| "join sep (x # y # ys) = x @ sep @ join sep (y # ys)"

fun js_to_string :: "jsval \<Rightarrow> jsstring" where
  "js_to_string JUndefined = lit ''undefined''"
| "js_to_string JNull = lit ''null''"
| "js_to_string (JBool b) = (if b then lit ''true'' else lit ''false'')"
| "js_to_string (JNum n) = showInt n"
| "js_to_string (JStr s) = s"
| "js_to_string (JArr xs) =
     join (lit '','') (map (\<lambda>x. if x = JUndefined \<or> x = JNull then [] else js_to_string x) xs)"
| "js_to_string (JObj kvs) = lit ''[object Object]''"

section \<open>Providers\<close>

text \<open>
  The providers are reached with \<open>fetch\<close>. A request is the endpoint with the fields of
  its JSON body; the outcome is a rejection, or a response with its \<open>ok\<close> flag, its
  status and its body, which \<open>response.json()\<close> either parses or rejects. The
  environment is what the program cannot decide: how the backend answers, the text of
  the engine's \<open>TypeError\<close>, the text content of the nodes that the browser's HTML
  parser builds from a piece of markup, the string that \<open>selection.toString()\<close> gives
  for a range of a document (the text as rendered, which need not be the text content of
  the range), and the token that \<open>useAuth\<close> supplies (\<open>None\<close> is \<open>null\<close>).
\<close>

datatype request =
    AgentReq jsstring jsstring
  | ChatReq jsstring jsstring
  | HealthReq

datatype body = Invalid jsstring | Json jsval

datatype fetch_outcome = Rejects jsstring | Response bool nat body

text \<open>
  A range of the document, by its two boundary offsets (see the section on the editor).
\<close>

record dom_range =
  startOffset :: nat
  endOffset :: nat

record env =
  fetch :: "request \<Rightarrow> fetch_outcome"
  type_error_text :: jsstring
  textContentOf :: "jsstring \<Rightarrow> jsstring"
  selectionToString :: "jsstring \<Rightarrow> dom_range \<Rightarrow> jsstring"
  token :: "jsstring option"

section \<open>The agent context\<close>

record SearchResult =
  title :: jsval
  url :: jsval
  snippet :: jsval

record WebSearchResponse =
  query :: jsval
  results :: "SearchResult list"
  summary :: jsval
  total_results :: jsval

text \<open>The callback of \<open>backendResult.results.map\<close>.\<close>

definition toSearchResult :: "jsval \<Rightarrow> exn + SearchResult" where
  "toSearchResult result =
     bind_exn (get_prop result (lit ''title'')) (\<lambda>t.
     bind_exn (get_prop result (lit ''url'')) (\<lambda>u.
     bind_exn (get_prop result (lit ''snippet'')) (\<lambda>s.
       Inr \<lparr>title = js_or t (JStr (lit ''Untitled'')),
            url = js_or u (JStr (lit ''#'')),
            snippet = js_or s (JStr (lit ''No description available''))\<rparr>)))"

fun mapM :: "('a \<Rightarrow> exn + 'b) \<Rightarrow> 'a list \<Rightarrow> exn + 'b list" where
  "mapM f [] = Inr []"
| "mapM f (x # xs) =
     bind_exn (f x) (\<lambda>y. bind_exn (mapM f xs) (\<lambda>ys. Inr (y # ys)))"

text \<open>
  \<open>performWebSearch\<close>: \<open>performWebSearch_try\<close> is the body of its \<open>try\<close> block, with
  every \<open>throw\<close> and every failing operation as \<open>Inl\<close>. In it, \<open>checkData\<close> is the
  test of the parsed body that yields \<open>backendResult\<close>, and \<open>buildResponse\<close> the object
  that is returned, its fields evaluated in the order written. \<open>searchErrorMessage\<close> is
  the choice of the message in the \<open>catch\<close> block. The function makes one request.
\<close>

definition checkData :: "jsval \<Rightarrow> exn + jsval" where
  "checkData data =
     bind_exn (get_prop data (lit ''status'')) (\<lambda>st.
       if st \<noteq> JStr (lit ''success'') then Inl (Error (lit ''Invalid response format from server''))
       else bind_exn (get_prop data (lit ''result'')) (\<lambda>backendResult.
         if \<not> truthy backendResult then Inl (Error (lit ''Invalid response format from server''))
         else Inr backendResult))"

definition buildResponse :: "jsstring \<Rightarrow> jsval \<Rightarrow> exn + WebSearchResponse" where
  "buildResponse q backendResult =
     bind_exn (get_prop backendResult (lit ''query'')) (\<lambda>bq.
     bind_exn (get_prop backendResult (lit ''results'')) (\<lambda>rs.
       (case rs of
          JArr xs \<Rightarrow>
            bind_exn (mapM toSearchResult xs) (\<lambda>ys.
            bind_exn (get_prop backendResult (lit ''summary'')) (\<lambda>sm.
            bind_exn (get_prop backendResult (lit ''total_results'')) (\<lambda>tr.
              Inr \<lparr>query = js_or bq (JStr q),
                   results = ys,
                   summary = js_or sm (JStr (lit ''Found '' @ showNat (length xs)
                               @ lit '' results for: '' @ q)),
                   total_results = js_or tr (JNum (int (length xs)))\<rparr>)))
        | _ \<Rightarrow> Inl TypeError)))"

definition performWebSearch_try :: "env \<Rightarrow> jsstring \<Rightarrow> exn + WebSearchResponse" where
  "performWebSearch_try e q =
     (case fetch e (AgentReq q (lit ''web_search'')) of
        Rejects m \<Rightarrow> Inl (FetchError m)
      | Response ok status b \<Rightarrow>
          if \<not> ok then
            bind_exn
              (get_prop (case b of Invalid m \<Rightarrow> JObj [(lit ''detail'', JStr (lit ''Unknown error''))]
                                 | Json errorData \<Rightarrow> errorData) (lit ''detail''))
              (\<lambda>detail. Inl (Error (js_to_string
                 (js_or detail (JStr (lit ''HTTP error! status: '' @ showNat status))))))
          else
            (case b of
               Invalid m \<Rightarrow> Inl (SyntaxError m)
             | Json data \<Rightarrow> bind_exn (checkData data) (buildResponse q)))"

definition searchErrorMessage :: "jsstring \<Rightarrow> jsstring" where
  "searchErrorMessage m =
     (if includes_str m (lit ''Failed to fetch'') \<or> includes_str m (lit ''NetworkError'')
      then lit ''Unable to connect to search service. Please check if the backend is running.''
      else if includes_str m (lit ''web_search'')
      then lit ''Search feature is not available at the moment.''
      else lit ''Error performing search'')"

definition performWebSearch :: "env \<Rightarrow> jsstring \<Rightarrow> WebSearchResponse \<times> request list" where
  "performWebSearch e q =
     (case performWebSearch_try e q of
        Inr r \<Rightarrow> r
      | Inl err \<Rightarrow>
          \<lparr>query = JStr q, results = [],
           summary = JStr (searchErrorMessage (message (type_error_text e) err)),
           total_results = JNum 0\<rparr>,
      [AgentReq q (lit ''web_search'')])"

text \<open>\<open>crawlUrl\<close>, one request as well.\<close>

definition crawlUrl_try :: "env \<Rightarrow> jsstring \<Rightarrow> exn + jsval" where
  "crawlUrl_try e u =
     (case fetch e (AgentReq u (lit ''crawl_url'')) of
        Rejects m \<Rightarrow> Inl (FetchError m)
      | Response ok status b \<Rightarrow>
          if \<not> ok then Inl (Error (lit ''HTTP error! status: '' @ showNat status))
          else
            (case b of
               Invalid m \<Rightarrow> Inl (SyntaxError m)
             | Json data \<Rightarrow>
                 bind_exn (get_prop data (lit ''result'')) (\<lambda>r.
                 bind_exn (if r = JUndefined \<or> r = JNull then Inr JUndefined
                           else get_prop r (lit ''content'')) (\<lambda>c.
                   Inr (js_or c (JStr (lit ''Unable to crawl URL'')))))))"

definition crawlUrl :: "env \<Rightarrow> jsstring \<Rightarrow> jsval \<times> request list" where
  "crawlUrl e u =
     (case crawlUrl_try e u of
        Inr c \<Rightarrow> c
      | Inl err \<Rightarrow> JStr (lit ''Error: Unable to crawl the specified URL''),
      [AgentReq u (lit ''crawl_url'')])"

section \<open>The editor\<close>

text \<open>
  The document is modelled by its text content, a string, and a DOM range by its two
  boundary offsets into that text, \<open>startOffset \<le> endOffset \<le> length doc\<close> in a
  well-formed state. The selection of the window has no range or one, and lies in the
  editor. Ranges are live: when the text changes, the browser moves the boundaries of
  every range that exists, here the range of the selection and the range kept in the
  preview data. Screen positions are left out.
\<close>

record PreviewData =
  original :: jsstring
  suggested :: jsval
  actionType :: jsstring
  selectionRange :: "dom_range option"

record editor =
  doc :: jsstring
  contentRef :: bool
  bridge :: bool
  selection :: "dom_range option"
  selectedText :: jsstring
  showFloatingToolbar :: bool
  isProcessing :: bool
  isConnected :: bool
  showPreviewModal :: bool
  previewData :: PreviewData
  alerts :: "jsstring list"

text \<open>
  \<open>contentRef\<close> says that \<open>contentRef.current\<close> is set, \<open>bridge\<close> that the three
  functions \<open>editorInsertContent\<close>, \<open>getEditorContent\<close> and \<open>setEditorContent\<close>
  are installed on \<open>window\<close>, and \<open>alerts\<close> collects the messages shown with
  \<open>alert\<close>.
\<close>

definition wf_range :: "jsstring \<Rightarrow> dom_range \<Rightarrow> bool" where
  "wf_range d r = (startOffset r \<le> endOffset r \<and> endOffset r \<le> length d)"

text \<open>
  A state is well formed when its live ranges lie in the document, as the ranges of a
  browser do.
\<close>

definition wf_editor :: "editor \<Rightarrow> bool" where
  "wf_editor st =
     ((case selection st of None \<Rightarrow> True | Some r \<Rightarrow> wf_range (doc st) r)
      \<and> (case selectionRange (previewData st) of
            None \<Rightarrow> True
          | Some r \<Rightarrow> wf_range (doc st) r))"

text \<open>The text content of a range, which is what \<open>range.toString()\<close> gives.\<close>

definition range_toString :: "jsstring \<Rightarrow> dom_range \<Rightarrow> jsstring" where
  "range_toString d r = take (endOffset r - startOffset r) (drop (startOffset r) d)"

subsection \<open>What the browser does\<close>

definition adjust_delete :: "nat \<Rightarrow> nat \<Rightarrow> nat \<Rightarrow> nat" where
  "adjust_delete a b p = (if p \<le> a then p else if p \<le> b then a else p - (b - a))"

definition adjust_insert :: "nat \<Rightarrow> nat \<Rightarrow> nat \<Rightarrow> nat" where
  "adjust_insert a n p = (if a < p then p + n else p)"

definition map_range :: "(nat \<Rightarrow> nat) \<Rightarrow> dom_range \<Rightarrow> dom_range" where
  "map_range f r = \<lparr>startOffset = f (startOffset r), endOffset = f (endOffset r)\<rparr>"

definition adjust_live :: "(nat \<Rightarrow> nat) \<Rightarrow> editor \<Rightarrow> editor" where
  "adjust_live f st =
     st\<lparr>selection := map_option (map_range f) (selection st),
        previewData := (previewData st)
          \<lparr>selectionRange := map_option (map_range f) (selectionRange (previewData st))\<rparr>\<rparr>"

text \<open>
  \<open>range.deleteContents()\<close> and \<open>range.insertNode(node)\<close> for a node with text \<open>t\<close>:
  each returns the range it was called on, and the state with the new text and the
  other ranges moved.
\<close>

definition deleteContents :: "dom_range \<Rightarrow> editor \<Rightarrow> dom_range \<times> editor" where
  "deleteContents r st =
     (r\<lparr>endOffset := startOffset r\<rparr>,
      adjust_live (adjust_delete (startOffset r) (endOffset r))
        (st\<lparr>doc := take (startOffset r) (doc st) @ drop (endOffset r) (doc st)\<rparr>))"

definition insertNode :: "dom_range \<Rightarrow> jsstring \<Rightarrow> editor \<Rightarrow> dom_range \<times> editor" where
  "insertNode r t st =
     (r\<lparr>endOffset := endOffset r + length t\<rparr>,
      adjust_live (adjust_insert (startOffset r) (length t))
        (st\<lparr>doc := take (startOffset r) (doc st) @ t @ drop (startOffset r) (doc st)\<rparr>))"

text \<open>\<open>range.collapse(false)\<close>: to the end.\<close>

definition collapse_to_end :: "dom_range \<Rightarrow> dom_range" where
  "collapse_to_end r = r\<lparr>startOffset := endOffset r\<rparr>"

text \<open>
  \<open>document.execCommand('insertHTML', false, html)\<close>: without an active range the
  command is not enabled and does nothing; otherwise the selected text is replaced by the
  parsed markup and the selection collapses behind it.
\<close>

definition execCommand_insertHTML :: "env \<Rightarrow> jsstring \<Rightarrow> editor \<Rightarrow> editor" where
  "execCommand_insertHTML e html st =
     (case selection st of
        None \<Rightarrow> st
      | Some r \<Rightarrow>
          (let (r1, st1) = deleteContents r st;
               (r2, st2) = insertNode r1 (textContentOf e html) st1
           in st2\<lparr>selection := Some (collapse_to_end r2)\<rparr>))"

text \<open>
  Assigning to \<open>innerHTML\<close> replaces every child of the element, which leaves the live
  ranges collapsed at its start.
\<close>

definition set_innerHTML :: "jsstring \<Rightarrow> editor \<Rightarrow> editor" where
  "set_innerHTML t st = adjust_live (\<lambda>p. 0) (st\<lparr>doc := t\<rparr>)"

subsection \<open>The functions installed on the window\<close>

datatype action_type = insert_action | replace_action | append_action

definition editorInsertContent :: "env \<Rightarrow> jsstring \<Rightarrow> action_type \<Rightarrow> editor \<Rightarrow> editor" where
  "editorInsertContent e htmlContent mode st =
     (if contentRef st then
        (if mode = replace_action \<and> selection st \<noteq> None then
           (let (r1, st1) = deleteContents (the (selection st)) st;
                (r2, st2) = insertNode r1 (textContentOf e htmlContent) st1
            in st2\<lparr>selection := Some r2\<rparr>)
         else if mode = append_action then
           set_innerHTML (doc st @ textContentOf e htmlContent) st
         else execCommand_insertHTML e htmlContent st)
      else st)"

definition getEditorContent :: "editor \<Rightarrow> jsstring" where
  "getEditorContent st = (if contentRef st then doc st else [])"

definition setEditorContent :: "env \<Rightarrow> jsstring \<Rightarrow> editor \<Rightarrow> editor" where
  "setEditorContent e content st =
     (if contentRef st then set_innerHTML (textContentOf e (lit ''<p>'' @ content @ lit ''</p>'')) st
      else st)"

subsection \<open>Selection, floating toolbar and preview\<close>

text \<open>
  \<open>handleMouseUp\<close> keeps the trimmed string of the selection, which is the text as the
  browser renders it.
\<close>

definition handleMouseUp :: "env \<Rightarrow> editor \<Rightarrow> editor" where
  "handleMouseUp e st =
     (case selection st of
        None \<Rightarrow> st\<lparr>showFloatingToolbar := False\<rparr>
      | Some r \<Rightarrow>
          if trim (selectionToString e (doc st) r) \<noteq> []
          then st\<lparr>selectedText := trim (selectionToString e (doc st) r),
                  showFloatingToolbar := True\<rparr>
          else st\<lparr>showFloatingToolbar := False\<rparr>)"

definition editPrompt :: "jsstring \<Rightarrow> jsstring \<Rightarrow> jsstring" where
  "editPrompt action t =
     (if action = lit ''shorten'' then
        (lit ''Please make this text shorter and more concise while keeping the key points: '')
      else if action = lit ''lengthen'' then
        (lit ''Please expand this text with more details and examples: '')
      else if action = lit ''table'' then
        (lit ''Convert this text into a well-formatted HTML table if applicable, or organize it in a structured format: '')
      else if action = lit ''formal'' then
        (lit ''Rewrite this text in a more formal, professional tone: '')
      else if action = lit ''casual'' then
        (lit ''Rewrite this text in a more casual, friendly tone: '')
      else if action = lit ''summary'' then
        (lit ''Create a brief summary of this text: '')
      else lit ''Please improve and refine this text while keeping its original meaning: '')
     @ [34] @ t @ [34]"

text \<open>
  \<open>callAIForEdit\<close>; the session identifier carries the time of the call and is a
  parameter. The second component is the list of the requests made.
\<close>

definition truthy_token :: "jsstring option \<Rightarrow> bool" where
  "truthy_token t = (t \<noteq> None \<and> t \<noteq> Some [])"

definition callAIForEdit ::
  "env \<Rightarrow> jsstring \<Rightarrow> jsstring \<Rightarrow> jsstring \<Rightarrow> editor \<Rightarrow> (exn + jsval) \<times> request list" where
  "callAIForEdit e sid t action st =
     (if \<not> isConnected st \<or> \<not> truthy_token (token e)
      then (Inl (Error (lit ''Not connected to AI service or not authenticated'')), [])
      else
        ((case fetch e (ChatReq (editPrompt action t) sid) of
            Rejects m \<Rightarrow> Inl (FetchError m)
          | Response ok status b \<Rightarrow>
              if \<not> ok then
                (if status = 401 then Inl (Error (lit ''Authentication failed. Please login again.''))
                 else Inl (Error (lit ''Server error: '' @ showNat status)))
              else
                (case b of
                   Invalid m \<Rightarrow> Inl (SyntaxError m)
                 | Json data \<Rightarrow>
                     bind_exn (get_prop data (lit ''response'')) (\<lambda>r. Inr (js_or r (JStr t))))),
         [ChatReq (editPrompt action t) sid]))"

text \<open>
  \<open>handleFloatingAction\<close>: \<open>handleFloatingAction_resume\<close> is what runs once the call
  of \<open>callAIForEdit\<close> has settled, on the state of that moment; \<open>handleFloatingAction\<close>
  runs the handler with no other event in between.
\<close>

definition handleFloatingAction_resume ::
  "env \<Rightarrow> jsstring \<Rightarrow> jsstring \<Rightarrow> exn + jsval \<Rightarrow> editor \<Rightarrow> editor" where
  "handleFloatingAction_resume e t action res st =
     (case res of
        Inr suggestion \<Rightarrow>
          (case selection st of
             Some r \<Rightarrow>
               st\<lparr>previewData := \<lparr>original = t, suggested = suggestion,
                                   actionType = action, selectionRange = Some r\<rparr>,
                  showPreviewModal := True\<rparr>
           | None \<Rightarrow> st)
      | Inl err \<Rightarrow>
          st\<lparr>alerts := alerts st @ [lit ''AI editing failed: '' @ message (type_error_text e) err]\<rparr>)
     \<lparr>isProcessing := False\<rparr>"

definition handleFloatingAction ::
  "env \<Rightarrow> jsstring \<Rightarrow> jsstring \<Rightarrow> editor \<Rightarrow> editor \<times> request list" where
  "handleFloatingAction e sid action st =
     (if selectedText st = [] \<or> \<not> isConnected st then
        (if \<not> isConnected st
         then st\<lparr>alerts := alerts st @ [lit ''Please check your connection to use AI editing features'']\<rparr>
         else st, [])
      else
        (let (res, calls) = callAIForEdit e sid (selectedText st) action st
         in (handleFloatingAction_resume e (selectedText st) action res
               (st\<lparr>isProcessing := True, showFloatingToolbar := False\<rparr>), calls)))"

definition emptyPreview :: PreviewData where
  "emptyPreview = \<lparr>original = [], suggested = JStr [], actionType = [], selectionRange = None\<rparr>"

definition handlePreviewAccept :: "editor \<Rightarrow> editor" where
  "handlePreviewAccept st =
     (if selectionRange (previewData st) \<noteq> None \<and> truthy (suggested (previewData st)) then
        (let (r1, st1) = deleteContents (the (selectionRange (previewData st))) st;
             (r2, st2) = insertNode r1 (js_to_string (suggested (previewData st))) st1
         in st2\<lparr>selection := Some (collapse_to_end r2)\<rparr>)
      else st)
     \<lparr>showPreviewModal := False, previewData := emptyPreview\<rparr>"

definition handlePreviewReject :: "editor \<Rightarrow> editor" where
  "handlePreviewReject st = st\<lparr>showPreviewModal := False, previewData := emptyPreview\<rparr>"

section \<open>Commands of the agent context\<close>

text \<open>
  \<open>insertToEditor\<close> dispatches an \<open>insertContent\<close> event, for which the program
  registers no listener, and then calls the function installed on the window, if there
  is one.
\<close>

datatype insert_content = Results WebSearchResponse | Plain jsstring

definition formatResult :: "SearchResult \<Rightarrow> jsstring" where
  "formatResult r =
     (lit ''<h3>'') @ js_to_string (title r) @ lit ''</h3><p>'' @ js_to_string (snippet r)
     @ lit ''</p><p><a href='' @ [34] @ js_to_string (url r) @ [34]
     @ lit '' target='' @ [34] @ lit ''_blank'' @ [34] @ lit ''>Read more</a></p>''"

definition insertToEditor :: "env \<Rightarrow> insert_content \<Rightarrow> editor \<Rightarrow> bool \<times> editor" where
  "insertToEditor e c st =
     (if bridge st then
        (True,
         (case c of
            Plain t \<Rightarrow> editorInsertContent e (lit ''<p>'' @ t @ lit ''</p>'') insert_action st
          | Results r \<Rightarrow>
              editorInsertContent e (join (lit ''<br/><br/>'') (map formatResult (results r)))
                insert_action st))
      else (False, st))"

datatype agent_response =
    search_and_insert_response WebSearchResponse jsstring
  | crawl_response jsval jsstring
  | summarize_response jsstring
  | search_response WebSearchResponse jsstring
  | error_response jsstring

text \<open>
  \<open>processAgentCommand\<close> returns its response, the requests made to the providers, in
  order, and the editor. The only exception raised inside its \<open>try\<close> block is the one
  it throws itself, and its \<open>catch\<close> block turns it into the error response.
\<close>

definition processAgentCommand ::
  "env \<Rightarrow> jsstring \<Rightarrow> editor \<Rightarrow> agent_response \<times> request list \<times> editor" where
  "processAgentCommand e command st =
     (let lowerCommand = toLowerCase command in
      if includes_str lowerCommand (lit ''search'') \<and> includes_str lowerCommand (lit ''insert'') then
        (let searchQuery = trim (replaceAllCI
               [lit ''search'', lit ''for'', lit ''and'', lit ''insert'', lit ''into'', lit ''editor'', lit ''please''] command);
             (rs, calls) = performWebSearch e searchQuery;
             (inserted, st') = insertToEditor e (Results rs) st
         in (search_and_insert_response rs
               (lit ''Searched for '' @ [34] @ searchQuery @ [34] @ lit '' and inserted ''
                @ showNat (length (results rs)) @ lit '' results into editor.''),
             calls, st'))
      else if includes_str lowerCommand (lit ''crawl'') \<or> includes_str lowerCommand (lit ''fetch'') then
        (case matchUrl command of
           Some u \<Rightarrow>
             (let (c, calls) = crawlUrl e u
              in (crawl_response c (lit ''Crawled content from '' @ u), calls, st))
         | None \<Rightarrow> (error_response (lit ''No valid URL found in command''), [], st))
      else if includes_str lowerCommand (lit ''summarize'') then
        (summarize_response
           (lit ''Please provide content to summarize or specify a URL to crawl first.''), [], st)
      else
        (let (rs, calls) = performWebSearch e command
         in (search_response rs
               (lit ''Found '' @ showNat (length (results rs)) @ lit '' results for: '' @ command),
             calls, st)))"

section \<open>The chat sidebar\<close>

datatype connection_status = connected | disconnected | checking_status

datatype role = user | assistant

text \<open>
  A message of the chat; its \<open>id\<close>, made from the clock, is left out. The content of an
  assistant message can come from a provider as it is, so it is a value.
\<close>

record AIMessage =
  msg_content :: jsval
  msg_role :: role
  hasEditorAction :: "bool option"
  editorActionType :: "action_type option"
  editorContent :: "jsstring option"

record sidebar =
  messages :: "AIMessage list"
  input :: jsstring
  searchResults :: "SearchResult list"
  isSearching :: bool
  isLoading :: bool
  sessionId :: jsstring
  connectionStatus :: connection_status

text \<open>
  Three string literals of the sidebar hold characters outside ASCII; they are given by
  the code units they have in the source file.
\<close>

definition bullet :: jsstring where
  "bullet = [0xE2, 0x20AC, 0xA2]"

definition warning_sign :: jsstring where
  "warning_sign = [0xE2, 0x0161, 0xA0, 0xEF, 0xB8]"

definition check_mark :: jsstring where
  "check_mark = [0xE2, 0x0153, 0x2026]"

definition plainResult :: "jsval \<Rightarrow> exn + SearchResult" where
  "plainResult result =
     bind_exn (get_prop result (lit ''title'')) (\<lambda>t.
     bind_exn (get_prop result (lit ''url'')) (\<lambda>u.
     bind_exn (get_prop result (lit ''snippet'')) (\<lambda>s.
       Inr \<lparr>title = t, url = u, snippet = s\<rparr>)))"

text \<open>
  \<open>handleWebSearch\<close>: \<open>handleWebSearch_try\<close> is the body of its \<open>try\<close> block, which
  yields \<open>Some\<close> of the results where it stores them with \<open>setSearchResults\<close> and
  \<open>None\<close> where it returns the empty list without storing it. The exception is thrown
  again by the \<open>catch\<close> block.
\<close>

definition handleWebSearch_try :: "env \<Rightarrow> jsstring \<Rightarrow> exn + SearchResult list option" where
  "handleWebSearch_try e q =
     (case fetch e (AgentReq q (lit ''web_search'')) of
        Rejects m \<Rightarrow> Inl (FetchError m)
      | Response ok status b \<Rightarrow>
          if \<not> ok then Inl (Error (lit ''HTTP error! status: '' @ showNat status))
          else
            (case b of
               Invalid m \<Rightarrow> Inl (SyntaxError m)
             | Json data \<Rightarrow>
                 bind_exn (get_prop data (lit ''status'')) (\<lambda>st.
                   if st \<noteq> JStr (lit ''success'') then Inr None
                   else bind_exn (get_prop data (lit ''result'')) (\<lambda>r.
                     if \<not> truthy r then Inr None
                     else bind_exn (get_prop r (lit ''results'')) (\<lambda>rs.
                       if \<not> truthy rs then Inr None
                       else (case rs of
                               JArr xs \<Rightarrow> bind_exn (mapM plainResult xs) (\<lambda>ys. Inr (Some ys))
                             | _ \<Rightarrow> Inl TypeError))))))"

definition handleWebSearch ::
  "env \<Rightarrow> jsstring \<Rightarrow> sidebar \<Rightarrow> (exn + SearchResult list) \<times> request list \<times> sidebar" where
  "handleWebSearch e q sb =
     (if connectionStatus sb \<noteq> connected \<or> \<not> truthy_token (token e)
      then (Inl (Error (lit ''Backend is not connected or user not authenticated'')), [], sb)
      else
        (case handleWebSearch_try e q of
           Inl err \<Rightarrow> (Inl err, [AgentReq q (lit ''web_search'')], sb\<lparr>isSearching := False\<rparr>)
         | Inr None \<Rightarrow> (Inr [], [AgentReq q (lit ''web_search'')], sb\<lparr>isSearching := False\<rparr>)
         | Inr (Some ys) \<Rightarrow>
             (Inr ys, [AgentReq q (lit ''web_search'')],
              sb\<lparr>searchResults := ys, isSearching := False\<rparr>)))"

definition insertIntoEditor :: "env \<Rightarrow> jsstring \<Rightarrow> action_type \<Rightarrow> editor \<Rightarrow> bool \<times> editor" where
  "insertIntoEditor e c mode st =
     (if bridge st then (True, editorInsertContent e c mode st) else (False, st))"

definition modifyPrompt :: "editor_action \<Rightarrow> jsstring \<Rightarrow> jsstring" where
  "modifyPrompt action currentContent =
     (case action of
        grammar \<Rightarrow> lit ''Please fix any grammar, spelling, and punctuation errors in this text while keeping the original meaning: ''
      | professional \<Rightarrow> lit ''Rewrite this text in a professional, formal tone: ''
      | casual \<Rightarrow> lit ''Rewrite this text in a casual, friendly tone: ''
      | summarize \<Rightarrow> lit ''Create a concise summary of this text: '')
     @ currentContent"

definition modifiedMessage :: "editor_action \<Rightarrow> jsstring" where
  "modifiedMessage action =
     (lit ''Content has been '')
     @ (case action of
          grammar \<Rightarrow> lit ''corrected''
        | professional \<Rightarrow> lit ''made more professional''
        | casual \<Rightarrow> lit ''made more casual''
        | summarize \<Rightarrow> lit ''summarized'')
     @ lit '' in your editor.''"

text \<open>
  \<open>modifyEditorContent\<close> returns its message, the requests made and the editor. Its
  action is one of the four that \<open>detectIntent\<close> produces.
\<close>

definition modifyEditorContent ::
  "env \<Rightarrow> jsstring \<Rightarrow> editor_action \<Rightarrow> editor \<Rightarrow> jsstring \<times> request list \<times> editor" where
  "modifyEditorContent e sid action st =
     (if bridge st then
        (let currentContent = getEditorContent st in
         if currentContent = [] \<or> trim currentContent = []
         then (lit ''No content found in the editor to modify.'', [], st)
         else
           (case fetch e (ChatReq (modifyPrompt action currentContent) sid) of
              Rejects m \<Rightarrow>
                (lit ''Failed to modify content. Please try again.'',
                 [ChatReq (modifyPrompt action currentContent) sid], st)
            | Response ok status b \<Rightarrow>
                if \<not> ok then
                  (lit ''Unable to access editor content. Please ensure the editor is ready.'',
                   [ChatReq (modifyPrompt action currentContent) sid], st)
                else
                  (case b of
                     Invalid m \<Rightarrow>
                       (lit ''Failed to modify content. Please try again.'',
                        [ChatReq (modifyPrompt action currentContent) sid], st)
                   | Json data \<Rightarrow>
                       (case get_prop data (lit ''response'') of
                          Inl err \<Rightarrow>
                            (lit ''Failed to modify content. Please try again.'',
                             [ChatReq (modifyPrompt action currentContent) sid], st)
                        | Inr improvedContent \<Rightarrow>
                            (modifiedMessage action,
                             [ChatReq (modifyPrompt action currentContent) sid],
                             setEditorContent e (js_to_string improvedContent) st)))))
      else (lit ''Unable to access editor content. Please ensure the editor is ready.'', [], st))"

text \<open>
  \<open>handleSubmit\<close>: \<open>handleSubmit_try\<close> is the body of its \<open>try\<close> block up to the
  assistant message it builds, for the submitted text \<open>currentInput\<close>, with one
  definition for each of the three longer branches; \<open>Inl\<close> is an exception that reaches
  the \<open>catch\<close> block of \<open>handleSubmit\<close>.
\<close>

definition newline :: jsstring where
  "newline = [10]"

definition assistantMessage ::
  "jsval \<Rightarrow> bool \<Rightarrow> action_type \<Rightarrow> jsstring \<Rightarrow> AIMessage" where
  "assistantMessage c h t ec =
     \<lparr>msg_content = c, msg_role = assistant, hasEditorAction = Some h,
      editorActionType = Some t, editorContent = Some ec\<rparr>"

definition submit_create_and_insert ::
  "env \<Rightarrow> jsstring \<Rightarrow> sidebar \<Rightarrow> editor
     \<Rightarrow> (exn + AIMessage) \<times> request list \<times> sidebar \<times> editor" where
  "submit_create_and_insert e currentInput sb st =
     (let req = ChatReq
            (replaceAllCI [lit ''and insert'', lit ''insert'', lit ''add to editor'', lit ''add it''] currentInput
             @ lit ''. Return only the content without any explanations or introductory text.'')
            (sessionId sb)
      in case fetch e req of
           Rejects m \<Rightarrow> (Inl (FetchError m), [req], sb, st)
         | Response ok status b \<Rightarrow>
             if \<not> ok then
               (Inr (assistantMessage
                       (JStr (lit ''Sorry, I could not generate the requested content.''))
                       False insert_action []), [req], sb, st)
             else
               (case b of
                  Invalid m \<Rightarrow> (Inl (SyntaxError m), [req], sb, st)
                | Json data \<Rightarrow>
                    (case get_prop data (lit ''response'') of
                       Inl err \<Rightarrow> (Inl err, [req], sb, st)
                     | Inr (JStr aiResponse) \<Rightarrow>
                         (let generatedContent = trim aiResponse;
                              (inserted, st') = insertIntoEditor e
                                (lit ''<p>'' @ generatedContent @ lit ''</p>'') insert_action st
                          in if inserted then
                               (Inr (assistantMessage
                                  (JStr (lit ''I've generated and inserted the content into your editor:''
                                         @ newline @ newline @ [34]
                                         @ take 100 generatedContent
                                         @ (if 100 < length generatedContent then lit ''...'' else [])
                                         @ [34]))
                                  True insert_action generatedContent), [req], sb, st')
                             else
                               (Inr (assistantMessage
                                  (JStr (lit ''Generated content: '' @ generatedContent
                                         @ newline @ newline @ warning_sign
                                         @ lit '' Could not insert into editor automatically.''))
                                  False insert_action generatedContent), [req], sb, st'))
                     | Inr other \<Rightarrow> (Inl TypeError, [req], sb, st))))"

definition foundMessage :: "jsstring \<Rightarrow> SearchResult list \<Rightarrow> jsstring" where
  "foundMessage searchQuery rs =
     (lit ''Found '') @ showNat (length rs) @ lit '' results for ''
     @ [34] @ searchQuery @ [34] @ lit '':'' @ newline @ newline
     @ join (newline @ newline)
         (map (\<lambda>r. bullet @ lit '' '' @ js_to_string (title r) @ lit '': ''
                    @ js_to_string (snippet r)) rs)"

definition submit_search ::
  "env \<Rightarrow> jsstring \<Rightarrow> bool \<Rightarrow> sidebar \<Rightarrow> editor
     \<Rightarrow> (exn + AIMessage) \<times> request list \<times> sidebar \<times> editor" where
  "submit_search e currentInput needsEditor sb st =
     (let searchQuery = trim (replaceAllCI
            [lit ''search'', lit ''find'', lit ''look up'', lit ''for'', lit ''please'', lit ''insert'', lit ''add'']
            currentInput);
          (res, calls, sb') = handleWebSearch e searchQuery sb
      in case res of
           Inl err \<Rightarrow>
             (Inr (assistantMessage
                     (JStr (lit ''Sorry, web search is currently unavailable. Please try again later.''))
                     False insert_action []), calls, sb', st)
         | Inr rs \<Rightarrow>
             if 0 < length rs then
               (if needsEditor then
                  (let formattedContent = join (lit ''<br/><br/>'') (map formatResult rs);
                       (inserted, st') = insertIntoEditor e formattedContent insert_action st
                   in if inserted then
                        (Inr (assistantMessage
                           (JStr (foundMessage searchQuery rs @ newline @ newline @ check_mark
                                  @ lit '' Search results have been inserted into your editor!''))
                           True insert_action formattedContent), calls, sb', st')
                      else (Inr (assistantMessage (JStr (foundMessage searchQuery rs))
                                   False insert_action []), calls, sb', st'))
                else (Inr (assistantMessage (JStr (foundMessage searchQuery rs))
                             False insert_action []), calls, sb', st))
             else
               (Inr (assistantMessage
                       (JStr (lit ''No results found for '' @ [34] @ searchQuery @ [34]
                              @ lit ''. Please try a different search term.''))
                       False insert_action []), calls, sb', st))"

definition submit_chat ::
  "env \<Rightarrow> jsstring \<Rightarrow> sidebar \<Rightarrow> editor
     \<Rightarrow> (exn + AIMessage) \<times> request list \<times> sidebar \<times> editor" where
  "submit_chat e currentInput sb st =
     (let req = ChatReq currentInput (sessionId sb)
      in case fetch e req of
           Rejects m \<Rightarrow> (Inl (FetchError m), [req], sb, st)
         | Response ok status b \<Rightarrow>
             if \<not> ok then
               (Inr (assistantMessage
                       (JStr (lit ''Sorry, I encountered an error processing your request.''))
                       False insert_action []), [req], sb, st)
             else
               (case b of
                  Invalid m \<Rightarrow> (Inl (SyntaxError m), [req], sb, st)
                | Json data \<Rightarrow>
                    (case get_prop data (lit ''response'') of
                       Inl err \<Rightarrow> (Inl err, [req], sb, st)
                     | Inr r \<Rightarrow>
                         (Inr (assistantMessage
                                 (js_or r (JStr (lit ''Sorry, I could not process your request.'')))
                                 False insert_action []), [req], sb, st))))"

definition handleSubmit_try ::
  "env \<Rightarrow> jsstring \<Rightarrow> sidebar \<Rightarrow> editor
     \<Rightarrow> (exn + AIMessage) \<times> request list \<times> sidebar \<times> editor" where
  "handleSubmit_try e currentInput sb st =
     (case detectIntent currentInput of
        editor_modify action \<Rightarrow>
          (let (m, calls, st') = modifyEditorContent e (sessionId sb) action st
           in (Inr (assistantMessage (JStr m) True replace_action []), calls, sb, st'))
      | create_and_insert \<Rightarrow> submit_create_and_insert e currentInput sb st
      | search needsEditor \<Rightarrow> submit_search e currentInput needsEditor sb st
      | other \<Rightarrow> submit_chat e currentInput sb st)"

definition chatErrorMessage :: "jsstring \<Rightarrow> jsstring" where
  "chatErrorMessage m =
     (if includes_str m (lit ''Failed to fetch'')
      then lit ''Unable to connect to the AI service. Please check if the backend is running.''
      else if includes_str m (lit ''401'')
      then lit ''Authentication error. Please login again.''
      else lit ''Sorry, I encountered an error processing your request.'')"

definition handleSubmit :: "env \<Rightarrow> sidebar \<Rightarrow> editor \<Rightarrow> sidebar \<times> request list \<times> editor" where
  "handleSubmit e sb st =
     (if trim (input sb) = [] then (sb, [], st)
      else if connectionStatus sb \<noteq> connected \<or> \<not> truthy_token (token e) then
        (sb, [], st\<lparr>alerts := alerts st @ [lit ''Please login first or check your connection.'']\<rparr>)
      else
        (let userMessage = \<lparr>msg_content = JStr (input sb), msg_role = user,
                             hasEditorAction = None, editorActionType = None,
                             editorContent = None\<rparr>;
             (res, calls, sb', st') = handleSubmit_try e (input sb)
                (sb\<lparr>messages := messages sb @ [userMessage], input := [], isLoading := True\<rparr>) st;
             reply = (case res of
                        Inr m \<Rightarrow> m
                      | Inl err \<Rightarrow>
                          \<lparr>msg_content = JStr (chatErrorMessage (message (type_error_text e) err)),
                           msg_role = assistant, hasEditorAction = None,
                           editorActionType = None, editorContent = None\<rparr>)
         in (sb'\<lparr>messages := messages sb' @ [reply], isLoading := False\<rparr>, calls, st')))"

section \<open>Concrete inputs\<close>

text \<open>
  A backend that answers every chat request with the text \<open>dog\<close>, every search with two
  results, the first of them without title and snippet, and every crawl with a page; a
  browser for a document of one text node, where the string of a selection is the text
  content of its range; and an editor that holds \<open>a cat\<close> with \<open> cat\<close> selected, the
  space included.
\<close>

definition ex_fetch :: "request \<Rightarrow> fetch_outcome" where
  "ex_fetch r =
     (case r of
        ChatReq p sid \<Rightarrow> Response True 200 (Json (JObj [(lit ''response'', JStr (lit ''dog''))]))
      | AgentReq q a \<Rightarrow>
          if a = lit ''web_search'' then
            Response True 200 (Json (JObj
              [(lit ''status'', JStr (lit ''success'')),
               (lit ''result'', JObj [(lit ''results'', JArr
                  [JObj [(lit ''title'', JStr []), (lit ''url'', JStr (lit ''u1''))],
                   JObj [(lit ''title'', JStr (lit ''T'')), (lit ''url'', JStr (lit ''u2'')),
                         (lit ''snippet'', JStr (lit ''S''))]])])]))
          else Response True 200
                 (Json (JObj [(lit ''result'', JObj [(lit ''content'', JStr (lit ''page''))])]))
      | HealthReq \<Rightarrow> Response True 200 (Json JNull))"

definition ex_env :: env where
  "ex_env = \<lparr>fetch = ex_fetch, type_error_text = lit ''TypeError'',
             textContentOf = (\<lambda>h. h), selectionToString = range_toString,
             token = Some (lit ''t'')\<rparr>"


definition ex_editor :: editor where
  "ex_editor =
     \<lparr>doc = lit ''a cat'', contentRef = True, bridge = True,
      selection = Some \<lparr>startOffset = 1, endOffset = 5\<rparr>, selectedText = [],
      showFloatingToolbar = False, isProcessing = False, isConnected = True,
      showPreviewModal = False, previewData = emptyPreview, alerts = []\<rparr>"

definition ex_sidebar :: sidebar where
  "ex_sidebar =
     \<lparr>messages = [], input = lit ''please search for'', searchResults = [],
      isSearching = False, isLoading = False, sessionId = lit ''s'',
      connectionStatus = connected\<rparr>"

definition ex_editor_nosel :: editor where
  "ex_editor_nosel = ex_editor\<lparr>selection := None\<rparr>"

text \<open>
  An empty editor whose functions are not installed on the window, and an editor that
  holds one no-break space.
\<close>

definition ex_editor_nobridge :: editor where
  "ex_editor_nobridge = ex_editor\<lparr>doc := [], selection := None, bridge := False\<rparr>"

definition ex_editor_nbsp :: editor where
  "ex_editor_nbsp = ex_editor\<lparr>doc := [0xA0], selection := None\<rparr>"

text \<open>
  The editor after the mouse has been released over the selection \<open> cat\<close> and the
  floating toolbar has asked for an edit of it, the preview now open: \<open>ex_preview\<close>
  when nothing else happened before the provider answered, \<open>ex_moved\<close> when the user
  selected the \<open>a\<close> in front of it in the meantime.
\<close>

definition ex_triggered :: editor where
  "ex_triggered = handleMouseUp ex_env ex_editor"



section \<open>Properties\<close>

subsection \<open>Auxiliary facts about strings\<close>

lemma length_lit [simp]: "length (lit s) = length s"
  by (simp add: lit_def)

lemma lit_eq_iff [simp]: "lit a = lit b \<longleftrightarrow> a = b"
  by (simp add: lit_def inj_map_eq_map [OF inj_of_char])

text \<open>
  The same two functions with the test for ASCII first, for evaluation.
\<close>

lemma isWhiteSpace_code [code]:
  "isWhiteSpace n =
     (if n < 128 then (9 \<le> n \<and> n \<le> 13) \<or> n = 32
      else if n < 256 then n = 0xA0
      else (n = 0x1680 \<or> (0x2000 \<le> n \<and> n \<le> 0x200A) \<or> n = 0x2028 \<or> n = 0x2029
            \<or> n = 0x202F \<or> n = 0x205F \<or> n = 0x3000 \<or> n = 0xFEFF))"
  by (auto simp add: isWhiteSpace_def)

lemma lowerUnit_code [code]:
  "lowerUnit n =
     (if n < 128 then (if 65 \<le> n \<and> n \<le> 90 then [n + 32] else [n])
      else if n = 0x212A then [107]
      else if n = 0x0130 then [105, 0x0307]
      else [n])"
  by (simp add: lowerUnit_def)

lemma trim_empty_iff: "trim s = [] \<longleftrightarrow> (\<forall>c\<in>set s. isWhiteSpace c)"
proof
  assume "trim s = []"
  then have all: "\<forall>c\<in>set (dropWhile isWhiteSpace s). isWhiteSpace c"
    by (simp add: trim_def)
  have "dropWhile isWhiteSpace s = []"
  proof (rule ccontr)
    assume ne: "dropWhile isWhiteSpace s \<noteq> []"
    then have "\<not> isWhiteSpace (hd (dropWhile isWhiteSpace s))"
      by (rule hd_dropWhile)
    with ne all show False by (metis list.set_sel(1))
  qed
  then show "\<forall>c\<in>set s. isWhiteSpace c" by simp
next
  assume "\<forall>c\<in>set s. isWhiteSpace c"
  then show "trim s = []" by (auto simp add: trim_def dest: set_dropWhileD)
qed

text \<open>
  A match of the URL pattern at the head of a string is one of the two schemes followed
  by the longest run of code units that are not white space, and the run is not empty.
\<close>

lemma url_run:
  assumes s: "s = sch @ rest" and u: "u = sch @ takeWhile (\<lambda>c. \<not> isWhiteSpace c) rest"
    and ne: "takeWhile (\<lambda>c. \<not> isWhiteSpace c) rest \<noteq> []"
    and p: "sch = lit ''http://'' \<or> sch = lit ''https://''"
  shows "\<exists>sch tail post. (sch = lit ''http://'' \<or> sch = lit ''https://'')
           \<and> u = sch @ tail \<and> tail \<noteq> [] \<and> (\<forall>c\<in>set tail. \<not> isWhiteSpace c)
           \<and> s = u @ post \<and> (post = [] \<or> isWhiteSpace (hd post))"
proof -
  let ?P = "\<lambda>c. \<not> isWhiteSpace c"
  have 1: "s = u @ dropWhile ?P rest" using s u by simp
  have 2: "\<forall>c\<in>set (takeWhile ?P rest). \<not> isWhiteSpace c"
    by (auto dest: set_takeWhileD)
  have 3: "dropWhile ?P rest = [] \<or> isWhiteSpace (hd (dropWhile ?P rest))"
    using hd_dropWhile [of ?P rest] by blast
  from p u ne 1 2 3 show ?thesis by blast
qed

lemma urlAt_Some:
  assumes "urlAt s = Some u"
  shows "\<exists>sch tail post. (sch = lit ''http://'' \<or> sch = lit ''https://'')
           \<and> u = sch @ tail \<and> tail \<noteq> [] \<and> (\<forall>c\<in>set tail. \<not> isWhiteSpace c)
           \<and> s = u @ post \<and> (post = [] \<or> isWhiteSpace (hd post))"
proof (cases "prefix (lit ''https://'') s
                \<and> takeWhile (\<lambda>c. \<not> isWhiteSpace c) (drop 8 s) \<noteq> []")
  case True
  then have u: "u = lit ''https://'' @ takeWhile (\<lambda>c. \<not> isWhiteSpace c) (drop 8 s)"
    using assms by (simp add: urlAt_def)
  from True have s: "s = lit ''https://'' @ drop 8 s"
    by (auto simp add: prefix_def)
  from True have ne: "takeWhile (\<lambda>c. \<not> isWhiteSpace c) (drop 8 s) \<noteq> []"
    by simp
  show ?thesis by (rule url_run [OF s u ne]) simp
next
  case False
  then have c: "prefix (lit ''http://'') s
                  \<and> takeWhile (\<lambda>c. \<not> isWhiteSpace c) (drop 7 s) \<noteq> []"
    and u: "u = lit ''http://'' @ takeWhile (\<lambda>c. \<not> isWhiteSpace c) (drop 7 s)"
    using assms by (auto simp add: urlAt_def split: if_splits)
  from c have s: "s = lit ''http://'' @ drop 7 s"
    by (auto simp add: prefix_def)
  from c have ne: "takeWhile (\<lambda>c. \<not> isWhiteSpace c) (drop 7 s) \<noteq> []"
    by simp
  show ?thesis by (rule url_run [OF s u ne]) simp
qed

lemma urlAt_Nil: "urlAt [] = None"
  by (simp add: urlAt_def)

lemma urlAt_scheme:
  assumes "sch = lit ''http://'' \<or> sch = lit ''https://''" "\<not> isWhiteSpace c"
  shows "urlAt (sch @ c # rest) \<noteq> None"
  using assms by (auto simp add: urlAt_def)

text \<open>
  The result of \<open>matchUrl\<close> is the match at the first position of the command that has
  one, and there is none exactly when no position has one.
\<close>

lemma matchUrl_Some:
  "matchUrl s = Some u \<Longrightarrow>
     \<exists>before after. s = before @ u @ after
        \<and> urlAt (drop (length before) s) = Some u
        \<and> (\<forall>i<length before. urlAt (drop i s) = None)"
proof (induction s)
  case Nil
  then show ?case by simp
next
  case (Cons c cs)
  show ?case
  proof (cases "urlAt (c # cs)")
    case (Some v)
    with Cons.prems have v: "v = u" by simp
    with Some urlAt_Some [of "c # cs" u] obtain post where "c # cs = u @ post"
      by blast
    then have "c # cs = [] @ u @ post" by simp
    moreover have "urlAt (drop (length ([] :: jsstring)) (c # cs)) = Some u"
      using Some v by simp
    moreover have "\<forall>i<length ([] :: jsstring). urlAt (drop i (c # cs)) = None"
      by simp
    ultimately show ?thesis by blast
  next
    case None
    with Cons.prems have "matchUrl cs = Some u" by simp
    from Cons.IH [OF this] obtain before after where
      p: "cs = before @ u @ after" "urlAt (drop (length before) cs) = Some u"
      "\<forall>i<length before. urlAt (drop i cs) = None"
      by blast
    have "\<forall>i<length (c # before). urlAt (drop i (c # cs)) = None"
    proof (intro allI impI)
      fix i assume "i < length (c # before)"
      then show "urlAt (drop i (c # cs)) = None"
        using None p(3) by (cases i) auto
    qed
    moreover have "c # cs = (c # before) @ u @ after" using p(1) by simp
    moreover have "urlAt (drop (length (c # before)) (c # cs)) = Some u" using p(2) by simp
    ultimately show ?thesis by blast
  qed
qed

lemma matchUrl_None: "matchUrl s = None \<Longrightarrow> urlAt (drop i s) = None"
proof (induction s arbitrary: i)
  case Nil
  then show ?case by (simp add: urlAt_Nil)
next
  case (Cons c cs)
  then show ?case by (cases i) (auto split: option.splits)
qed

lemma matchUrl_complete:
  "urlAt t \<noteq> None \<Longrightarrow> matchUrl (pre @ t) \<noteq> None"
proof (induction pre)
  case Nil
  then show ?case by (cases t) (auto simp add: urlAt_Nil)
next
  case (Cons a pre)
  then show ?case by (auto split: option.splits)
qed

text \<open>
  A command has a match of the URL pattern exactly when one of the two schemes occurs in
  it with a code unit behind it that is not white space.
\<close>

lemma matchUrl_iff:
  "matchUrl s \<noteq> None \<longleftrightarrow>
     (\<exists>pre sch c rest. s = pre @ sch @ c # rest
        \<and> (sch = lit ''http://'' \<or> sch = lit ''https://'') \<and> \<not> isWhiteSpace c)"
proof
  assume "matchUrl s \<noteq> None"
  then obtain u where u: "matchUrl s = Some u" by auto
  from matchUrl_Some [OF u] obtain before after where
    s: "s = before @ u @ after" and at: "urlAt (drop (length before) s) = Some u"
    by blast
  from urlAt_Some [OF at] obtain sch tail where
    sch: "sch = lit ''http://'' \<or> sch = lit ''https://''" and ut: "u = sch @ tail"
    and ne: "tail \<noteq> []" and nws: "\<forall>c\<in>set tail. \<not> isWhiteSpace c"
    by blast
  from ne obtain c tl where tl: "tail = c # tl" by (cases tail) auto
  with nws have "\<not> isWhiteSpace c" by simp
  moreover have "s = before @ sch @ c # (tl @ after)" using s ut tl by simp
  ultimately show "\<exists>pre sch c rest. s = pre @ sch @ c # rest
        \<and> (sch = lit ''http://'' \<or> sch = lit ''https://'') \<and> \<not> isWhiteSpace c"
    using sch by blast
next
  assume "\<exists>pre sch c rest. s = pre @ sch @ c # rest
        \<and> (sch = lit ''http://'' \<or> sch = lit ''https://'') \<and> \<not> isWhiteSpace c"
  then obtain pre sch c rest where s: "s = pre @ sch @ c # rest"
    and sch: "sch = lit ''http://'' \<or> sch = lit ''https://''" and ws: "\<not> isWhiteSpace c"
    by blast
  from urlAt_scheme [OF sch ws] have "matchUrl (pre @ sch @ c # rest) \<noteq> None"
    by (rule matchUrl_complete)
  with s show "matchUrl s \<noteq> None" by simp
qed

subsection \<open>Auxiliary facts about the search functions\<close>








lemma handleWebSearch_calls:
  "connectionStatus sb = connected \<Longrightarrow> truthy_token (token e) \<Longrightarrow>
     fst (snd (handleWebSearch e q sb)) = [AgentReq q (lit ''web_search'')]"
  by (simp add: handleWebSearch_def split: sum.splits option.splits)

lemma submit_search_calls:
  "fst (snd (submit_search e c n sb st))
     = fst (snd (handleWebSearch e (trim (replaceAllCI
            [lit ''search'', lit ''find'', lit ''look up'', lit ''for'', lit ''please'', lit ''insert'', lit ''add''] c)) sb))"
  by (simp add: submit_search_def Let_def split: prod.splits sum.splits)

lemma handleSubmit_calls:
  "trim (input sb) \<noteq> [] \<Longrightarrow> connectionStatus sb = connected \<Longrightarrow> truthy_token (token e) \<Longrightarrow>
     fst (snd (handleSubmit e sb st))
       = fst (snd (handleSubmit_try e (input sb)
           (sb\<lparr>messages := messages sb @ [\<lparr>msg_content = JStr (input sb), msg_role = user,
                             hasEditorAction = None, editorActionType = None,
                             editorContent = None\<rparr>], input := [], isLoading := True\<rparr>) st))"
  by (simp add: handleSubmit_def Let_def split: prod.splits)

subsection \<open>Well-formed states\<close>

text \<open>
  The editor of the examples is well formed, and every function of the program that
  changes the document or a range keeps the state well formed.
\<close>

lemma wf_range_adjust_delete:
  assumes "wf_range d p" "wf_range d r"
  shows "wf_range (take (startOffset r) d @ drop (endOffset r) d)
           (map_range (adjust_delete (startOffset r) (endOffset r)) p)"
  using assms by (auto simp add: wf_range_def map_range_def adjust_delete_def min_def)

lemma wf_range_adjust_insert:
  assumes "wf_range d p" "a \<le> length d"
  shows "wf_range (take a d @ t @ drop a d) (map_range (adjust_insert a (length t)) p)"
  using assms by (auto simp add: wf_range_def map_range_def adjust_insert_def min_def)

lemma wf_editor_iff:
  "wf_editor st \<longleftrightarrow>
     (\<forall>r. selection st = Some r \<longrightarrow> wf_range (doc st) r)
     \<and> (\<forall>r. selectionRange (previewData st) = Some r \<longrightarrow> wf_range (doc st) r)"
  by (auto simp add: wf_editor_def split: option.splits)

lemma adjust_live_simps:
  "doc (adjust_live f st) = doc st"
  "selection (adjust_live f st) = map_option (map_range f) (selection st)"
  "selectionRange (previewData (adjust_live f st))
     = map_option (map_range f) (selectionRange (previewData st))"
  by (simp_all add: adjust_live_def)

lemma wf_adjust_live:
  assumes w: "wf_editor st"
    and f: "\<And>p. wf_range (doc st) p \<Longrightarrow> wf_range d (map_range f p)"
  shows "wf_editor (adjust_live f (st\<lparr>doc := d\<rparr>))"
  unfolding wf_editor_iff adjust_live_simps
proof (intro conjI allI impI)
  fix r assume "map_option (map_range f) (selection (st\<lparr>doc := d\<rparr>)) = Some r"
  then obtain p where "selection st = Some p" and r: "r = map_range f p" by auto
  with w have "wf_range (doc st) p" by (simp add: wf_editor_iff)
  from f [OF this] r show "wf_range (doc (st\<lparr>doc := d\<rparr>)) r" by simp
next
  fix r
  assume "map_option (map_range f) (selectionRange (previewData (st\<lparr>doc := d\<rparr>))) = Some r"
  then obtain p where "selectionRange (previewData st) = Some p" and r: "r = map_range f p"
    by auto
  with w have "wf_range (doc st) p" by (simp add: wf_editor_iff)
  from f [OF this] r show "wf_range (doc (st\<lparr>doc := d\<rparr>)) r" by simp
qed

lemma wf_deleteContents:
  assumes w: "wf_editor st" and r: "wf_range (doc st) r"
  shows "wf_editor (snd (deleteContents r st))"
    and "wf_range (doc (snd (deleteContents r st))) (fst (deleteContents r st))"
proof -
  show "wf_editor (snd (deleteContents r st))"
    unfolding deleteContents_def snd_conv
    by (rule wf_adjust_live [OF w]) (rule wf_range_adjust_delete [OF _ r])
  show "wf_range (doc (snd (deleteContents r st))) (fst (deleteContents r st))"
    using r by (auto simp add: deleteContents_def adjust_live_simps wf_range_def min_def)
qed

lemma wf_insertNode:
  assumes w: "wf_editor st" and r: "wf_range (doc st) r"
  shows "wf_editor (snd (insertNode r t st))"
    and "wf_range (doc (snd (insertNode r t st))) (fst (insertNode r t st))"
proof -
  from r have a: "startOffset r \<le> length (doc st)" by (simp add: wf_range_def)
  show "wf_editor (snd (insertNode r t st))"
    unfolding insertNode_def snd_conv
    by (rule wf_adjust_live [OF w]) (rule wf_range_adjust_insert [OF _ a])
  show "wf_range (doc (snd (insertNode r t st))) (fst (insertNode r t st))"
    using r by (auto simp add: insertNode_def adjust_live_simps wf_range_def min_def)
qed

lemma wf_set_selection:
  "wf_editor st \<Longrightarrow> wf_range (doc st) r \<Longrightarrow> wf_editor (st\<lparr>selection := Some r\<rparr>)"
  by (simp add: wf_editor_iff)

lemma wf_collapse_to_end: "wf_range d r \<Longrightarrow> wf_range d (collapse_to_end r)"
  by (simp add: wf_range_def collapse_to_end_def)

lemma wf_set_innerHTML: "wf_editor (set_innerHTML t st)"
  by (auto simp add: wf_editor_iff set_innerHTML_def adjust_live_simps wf_range_def
      map_range_def)

lemma wf_replace_steps:
  assumes "wf_editor st" "wf_range (doc st) r"
  shows "wf_editor (snd (insertNode (fst (deleteContents r st)) t (snd (deleteContents r st))))"
    and "wf_range (doc (snd (insertNode (fst (deleteContents r st)) t (snd (deleteContents r st)))))
           (fst (insertNode (fst (deleteContents r st)) t (snd (deleteContents r st))))"
  using wf_insertNode [OF wf_deleteContents [OF assms]] by simp_all

lemma wf_execCommand_insertHTML:
  "wf_editor st \<Longrightarrow> wf_editor (execCommand_insertHTML e h st)"
proof (cases "selection st")
  case None
  assume "wf_editor st"
  with None show ?thesis by (simp add: execCommand_insertHTML_def)
next
  case (Some r)
  assume w: "wf_editor st"
  with Some have r: "wf_range (doc st) r" by (simp add: wf_editor_iff)
  from wf_replace_steps [OF w r, of "textContentOf e h"] Some show ?thesis
    by (simp add: execCommand_insertHTML_def split_def Let_def wf_set_selection
        wf_collapse_to_end)
qed

lemma wf_editorInsertContent:
  "wf_editor st \<Longrightarrow> wf_editor (editorInsertContent e h mode st)"
proof (cases "selection st")
  case None
  assume "wf_editor st"
  with None show ?thesis
    by (simp add: editorInsertContent_def wf_set_innerHTML wf_execCommand_insertHTML)
next
  case (Some r)
  assume w: "wf_editor st"
  with Some have r: "wf_range (doc st) r" by (simp add: wf_editor_iff)
  from wf_replace_steps [OF w r, of "textContentOf e h"] Some w show ?thesis
    by (simp add: editorInsertContent_def split_def Let_def wf_set_selection
        wf_set_innerHTML wf_execCommand_insertHTML)
qed

lemma wf_setEditorContent: "wf_editor st \<Longrightarrow> wf_editor (setEditorContent e c st)"
  by (simp add: setEditorContent_def wf_set_innerHTML)

lemma wf_handleMouseUp: "wf_editor st \<Longrightarrow> wf_editor (handleMouseUp e st)"
  by (simp add: handleMouseUp_def wf_editor_iff split: option.splits)

lemma wf_handleFloatingAction_resume:
  "wf_editor st \<Longrightarrow> wf_editor (handleFloatingAction_resume e t action res st)"
  by (auto simp add: handleFloatingAction_resume_def wf_editor_iff
      split: option.splits sum.splits)

lemma wf_handleFloatingAction:
  "wf_editor st \<Longrightarrow> wf_editor (fst (handleFloatingAction e sid action st))"
proof -
  assume w: "wf_editor st"
  then have "wf_editor (st\<lparr>isProcessing := True, showFloatingToolbar := False\<rparr>)"
    and "wf_editor (st\<lparr>alerts := alerts st
            @ [lit ''Please check your connection to use AI editing features'']\<rparr>)"
    by (simp_all add: wf_editor_iff)
  with w show ?thesis
    by (simp add: handleFloatingAction_def split_def Let_def wf_handleFloatingAction_resume)
qed

lemma wf_handlePreviewReject: "wf_editor st \<Longrightarrow> wf_editor (handlePreviewReject st)"
  by (simp add: handlePreviewReject_def wf_editor_iff emptyPreview_def)



lemma wf_insertIntoEditor:
  "wf_editor st \<Longrightarrow> wf_editor (snd (insertIntoEditor e c mode st))"
  by (simp add: insertIntoEditor_def wf_editorInsertContent)

lemma wf_insertToEditor:
  "wf_editor st \<Longrightarrow> wf_editor (snd (insertToEditor e c st))"
  by (simp add: insertToEditor_def wf_editorInsertContent split: insert_content.splits)

lemma wf_modifyEditorContent:
  "wf_editor st \<Longrightarrow> wf_editor (snd (snd (modifyEditorContent e sid a st)))"
  by (simp add: modifyEditorContent_def Let_def wf_setEditorContent
      split: fetch_outcome.splits body.splits sum.splits)

lemma wf_processAgentCommand:
  "wf_editor st \<Longrightarrow> wf_editor (snd (snd (processAgentCommand e c st)))"
  by (simp add: processAgentCommand_def Let_def split_def wf_insertToEditor
      split: option.splits)

lemma wf_submit_create_and_insert:
  "wf_editor st \<Longrightarrow> wf_editor (snd (snd (snd (submit_create_and_insert e c sb st))))"
  by (simp add: submit_create_and_insert_def Let_def split_def wf_insertIntoEditor
      split: fetch_outcome.splits body.splits sum.splits jsval.splits)

lemma wf_submit_search:
  "wf_editor st \<Longrightarrow> wf_editor (snd (snd (snd (submit_search e c n sb st))))"
  by (simp add: submit_search_def Let_def split_def wf_insertIntoEditor split: sum.splits)

lemma wf_submit_chat:
  "wf_editor st \<Longrightarrow> wf_editor (snd (snd (snd (submit_chat e c sb st))))"
  by (simp add: submit_chat_def Let_def
      split: fetch_outcome.splits body.splits sum.splits)

lemma wf_handleSubmit_try:
  "wf_editor st \<Longrightarrow> wf_editor (snd (snd (snd (handleSubmit_try e c sb st))))"
  by (cases "detectIntent c")
     (simp_all add: handleSubmit_try_def split_def Let_def wf_modifyEditorContent
        wf_submit_create_and_insert wf_submit_search wf_submit_chat)

lemma wf_alert: "wf_editor st \<Longrightarrow> wf_editor (st\<lparr>alerts := a\<rparr>)"
  by (simp add: wf_editor_iff)

lemma wf_handleSubmit:
  "wf_editor st \<Longrightarrow> wf_editor (snd (snd (handleSubmit e sb st)))"
  by (simp add: handleSubmit_def Let_def split_def wf_handleSubmit_try wf_alert)

lemma wf_ex_editor: "wf_editor ex_editor"
  by code_simp

subsection \<open>The crawl command without a URL\<close>

text \<open>
  Claim C7. For the command \<open>crawl \<close>, a crawl keyword with no URL,
  \<open>processAgentCommand\<close> returns the error response with the message
  \<open>No valid URL found in command\<close>; it makes no request to any provider and leaves the
  editor as it was.
\<close>

theorem crawl_without_url:
  "processAgentCommand e (lit ''crawl '') st =
     (error_response (lit ''No valid URL found in command''), [], st)"
  by code_simp

theorem crawl_without_url_witness:
  "processAgentCommand ex_env (lit ''crawl '') ex_editor =
     (error_response (lit ''No valid URL found in command''), [], ex_editor)"
  using crawl_without_url [of ex_env ex_editor] by simp

subsection \<open>Rejecting and accepting a suggestion\<close>

text \<open>
  Claim C5. Rejecting a suggestion changes no text: after a transform has been triggered
  from the floating toolbar and rejected, the content read from the editor is what it was
  before the trigger; rejecting alone changes neither the text nor the selection; and the
  range and the suggestion kept for the preview are gone.
\<close>

theorem reject_changes_nothing:
  "getEditorContent (handlePreviewReject (fst (handleFloatingAction e sid action st)))
     = getEditorContent st
   \<and> doc (handlePreviewReject st) = doc st
   \<and> selection (handlePreviewReject st) = selection st
   \<and> selectionRange (previewData (handlePreviewReject st)) = None
   \<and> suggested (previewData (handlePreviewReject st)) = JStr []
   \<and> \<not> showPreviewModal (handlePreviewReject st)"
  by (simp add: handlePreviewReject_def handleFloatingAction_def handleFloatingAction_resume_def
      getEditorContent_def emptyPreview_def Let_def split: prod.splits sum.splits option.splits)

theorem reject_changes_nothing_witness:
  "getEditorContent (handlePreviewReject
     (fst (handleFloatingAction ex_env (lit ''s'') (lit ''formal'') ex_triggered))) = lit ''a cat''"
proof -
  have g: "getEditorContent ex_triggered = lit ''a cat''"
    by code_simp
  from reject_changes_nothing [of ex_env "lit ''s''" "lit ''formal''" ex_triggered]
  show ?thesis by (simp add: g)
qed

text \<open>
  Claim C9. When no range is kept for the preview, or the suggestion kept is the empty
  string, accepting does not touch the document: it only closes the preview and clears
  its data, exactly as rejecting does.
\<close>

theorem accept_guard:
  "selectionRange (previewData st) = None \<or> suggested (previewData st) = JStr [] \<Longrightarrow>
     handlePreviewAccept st = st\<lparr>showPreviewModal := False, previewData := emptyPreview\<rparr>
     \<and> doc (handlePreviewAccept st) = doc st
     \<and> selection (handlePreviewAccept st) = selection st"
  by (auto simp add: handlePreviewAccept_def)

theorem accept_guard_witness:
  "selectionRange (previewData ex_editor) = None
   \<and> handlePreviewAccept ex_editor = ex_editor
   \<and> doc (handlePreviewAccept ex_editor) = lit ''a cat''"
proof -
  have h: "selectionRange (previewData ex_editor) = None"
    by (simp add: ex_editor_def emptyPreview_def)
  from accept_guard [of ex_editor] h show ?thesis
    by (simp add: ex_editor_def)
qed

subsection \<open>Accepting the suggestion of a transform\<close>







subsection \<open>Replacing without a selection\<close>

text \<open>
  The claim that a replace without a selection is reported as an error fails: the caller
  is told \<open>true\<close>, as for a replace that did replace, nothing is added to the alerts, and
  what ran is the insert command.
\<close>

theorem replace_without_selection_counterexample:
  "selection ex_editor_nosel = None
   \<and> insertIntoEditor ex_env (lit ''<p>x</p>'') replace_action ex_editor_nosel
       = (True, ex_editor_nosel)
   \<and> fst (insertIntoEditor ex_env (lit ''<p>x</p>'') replace_action ex_editor) = True
   \<and> editorInsertContent ex_env (lit ''<p>x</p>'') replace_action ex_editor_nosel
       = execCommand_insertHTML ex_env (lit ''<p>x</p>'') ex_editor_nosel"
  by (simp add: ex_editor_nosel_def ex_editor_def insertIntoEditor_def editorInsertContent_def
      execCommand_insertHTML_def)

text \<open>
  Claim C1, amended. A call of \<open>editorInsertContent\<close> with the action \<open>replace\<close>, made
  when the selection has no range, does what the same call with the action \<open>insert\<close>
  does: it runs the insert command, which without a range leaves the editor as it was.
  No error is reported: the function returns nothing, and \<open>insertIntoEditor\<close> returns
  \<open>true\<close> whenever the function is installed.
\<close>

theorem replace_without_selection:
  "selection st = None \<Longrightarrow>
     editorInsertContent e h replace_action st = editorInsertContent e h insert_action st
     \<and> editorInsertContent e h replace_action st = st
     \<and> insertIntoEditor e h replace_action st = (bridge st, st)"
  by (simp add: editorInsertContent_def execCommand_insertHTML_def insertIntoEditor_def)

theorem replace_without_selection_witness:
  "editorInsertContent ex_env (lit ''<p>x</p>'') replace_action ex_editor_nosel = ex_editor_nosel"
proof -
  have h: "selection ex_editor_nosel = None"
    by (simp add: ex_editor_nosel_def)
  from replace_without_selection [OF h, of ex_env "lit ''<p>x</p>''"] show ?thesis
    by blast
qed

subsection \<open>Transforms of an empty document\<close>

text \<open>
  The claim that a transform of an empty document is always answered with the message
  that no content was found fails where the editor functions are not installed on the
  window: the guard on \<open>window.getEditorContent\<close> then gives another message.
\<close>

theorem modify_empty_editor_counterexample:
  "getEditorContent ex_editor_nobridge = []
   \<and> modifyEditorContent ex_env (lit ''s'') grammar ex_editor_nobridge
       = (lit ''Unable to access editor content. Please ensure the editor is ready.'', [],
          ex_editor_nobridge)"
  by code_simp

text \<open>
  Claim C10, amended. For each of the four transforms of the whole document that the
  chat can trigger, when the text content of the editor is empty or white space only,
  \<open>modifyEditorContent\<close> makes no request and leaves the editor as it was; it returns
  the message \<open>No content found in the editor to modify.\<close> when the editor functions
  are installed on the window, and the message
  \<open>Unable to access editor content. Please ensure the editor is ready.\<close> when they are
  not. White space is all that \<open>trim\<close> removes, the no-break space included.
\<close>

theorem modify_empty_editor:
  "\<forall>c\<in>set (getEditorContent st). isWhiteSpace c \<Longrightarrow>
     modifyEditorContent e sid action st =
       (if bridge st then lit ''No content found in the editor to modify.''
        else lit ''Unable to access editor content. Please ensure the editor is ready.'',
        [], st)"
  by (simp add: modifyEditorContent_def Let_def trim_empty_iff)

theorem modify_empty_editor_witness:
  "modifyEditorContent ex_env (lit ''s'') professional ex_editor_nbsp =
     (lit ''No content found in the editor to modify.'', [], ex_editor_nbsp)"
proof -
  have w: "\<forall>c\<in>set (getEditorContent ex_editor_nbsp). isWhiteSpace c"
    by (simp add: ex_editor_nbsp_def ex_editor_def getEditorContent_def isWhiteSpace_def)
  have b: "bridge ex_editor_nbsp"
    by (simp add: ex_editor_nbsp_def ex_editor_def)
  from modify_empty_editor [OF w, of ex_env "lit ''s''" professional] b show ?thesis
    by simp
qed

subsection \<open>Intents\<close>

text \<open>
  The claim that \<open>generate\<close> with \<open>insert\<close> gives the intent to create and insert
  fails: \<open>generate\<close> is not among the words that \<open>detectIntent\<close> looks for.
\<close>

theorem generate_counterexample:
  "includes_str (toLowerCase (lit ''generate a poem and insert it'')) (lit ''generate'')
   \<and> includes_str (toLowerCase (lit ''generate a poem and insert it'')) (lit ''insert'')
   \<and> detectIntent (lit ''generate a poem and insert it'') = editor_insert"
  by code_simp

text \<open>
  Claim C6, amended. A message that, in lower case, contains \<open>write\<close> or \<open>create\<close>
  together with \<open>insert\<close> or \<open>add\<close>, and none of the phrases of the four editor
  transforms, has the intent \<open>create_and_insert\<close>.
\<close>

theorem create_and_insert_intent:
  assumes "includes_str (toLowerCase m) (lit ''write'') \<or> includes_str (toLowerCase m) (lit ''create'')"
    and "includes_str (toLowerCase m) (lit ''insert'') \<or> includes_str (toLowerCase m) (lit ''add'')"
    and "\<not> includes_str (toLowerCase m) (lit ''fix grammar'')"
    and "\<not> includes_str (toLowerCase m) (lit ''correct'')"
    and "\<not> includes_str (toLowerCase m) (lit ''improve writing'')"
    and "\<not> includes_str (toLowerCase m) (lit ''make professional'')"
    and "\<not> includes_str (toLowerCase m) (lit ''formal tone'')"
    and "\<not> includes_str (toLowerCase m) (lit ''make casual'')"
    and "\<not> includes_str (toLowerCase m) (lit ''friendly tone'')"
    and "\<not> includes_str (toLowerCase m) (lit ''summarize'')"
    and "\<not> includes_str (toLowerCase m) (lit ''make shorter'')"
  shows "detectIntent m = create_and_insert"
  using assms by (simp add: detectIntent_def Let_def)

theorem create_and_insert_intent_witness:
  "detectIntent (lit ''Write a poem and insert it'') = create_and_insert"
proof -
  have h1: "includes_str (toLowerCase (lit ''Write a poem and insert it'')) (lit ''write'')
            \<or> includes_str (toLowerCase (lit ''Write a poem and insert it'')) (lit ''create'')"
    by code_simp
  have h2: "includes_str (toLowerCase (lit ''Write a poem and insert it'')) (lit ''insert'')
            \<or> includes_str (toLowerCase (lit ''Write a poem and insert it'')) (lit ''add'')"
    by code_simp
  have h3: "\<not> includes_str (toLowerCase (lit ''Write a poem and insert it'')) (lit ''fix grammar'')"
    by code_simp
  have h4: "\<not> includes_str (toLowerCase (lit ''Write a poem and insert it'')) (lit ''correct'')"
    by code_simp
  have h5: "\<not> includes_str (toLowerCase (lit ''Write a poem and insert it'')) (lit ''improve writing'')"
    by code_simp
  have h6: "\<not> includes_str (toLowerCase (lit ''Write a poem and insert it'')) (lit ''make professional'')"
    by code_simp
  have h7: "\<not> includes_str (toLowerCase (lit ''Write a poem and insert it'')) (lit ''formal tone'')"
    by code_simp
  have h8: "\<not> includes_str (toLowerCase (lit ''Write a poem and insert it'')) (lit ''make casual'')"
    by code_simp
  have h9: "\<not> includes_str (toLowerCase (lit ''Write a poem and insert it'')) (lit ''friendly tone'')"
    by code_simp
  have h10: "\<not> includes_str (toLowerCase (lit ''Write a poem and insert it'')) (lit ''summarize'')"
    by code_simp
  have h11: "\<not> includes_str (toLowerCase (lit ''Write a poem and insert it'')) (lit ''make shorter'')"
    by code_simp
  from create_and_insert_intent [OF h1 h2 h3 h4 h5 h6 h7 h8 h9 h10 h11] show ?thesis .
qed

subsection \<open>Crawling a URL\<close>

lemma processAgentCommand_calls:
  "fst (snd (processAgentCommand e command st)) =
     (if includes_str (toLowerCase command) (lit ''search'')
           \<and> includes_str (toLowerCase command) (lit ''insert'')
      then [AgentReq (trim (replaceAllCI
              [lit ''search'', lit ''for'', lit ''and'', lit ''insert'', lit ''into'',
               lit ''editor'', lit ''please''] command)) (lit ''web_search'')]
      else if includes_str (toLowerCase command) (lit ''crawl'')
                \<or> includes_str (toLowerCase command) (lit ''fetch'')
      then (case matchUrl command of Some u \<Rightarrow> [AgentReq u (lit ''crawl_url'')] | None \<Rightarrow> [])
      else if includes_str (toLowerCase command) (lit ''summarize'') then []
      else [AgentReq command (lit ''web_search'')])"
  by (simp add: processAgentCommand_def Let_def performWebSearch_def crawlUrl_def
      split: prod.splits option.splits)

lemma processAgentCommand_crawl_iff:
  "(\<exists>c m. fst (processAgentCommand e command st) = crawl_response c m) \<longleftrightarrow>
     \<not> (includes_str (toLowerCase command) (lit ''search'')
          \<and> includes_str (toLowerCase command) (lit ''insert''))
     \<and> (includes_str (toLowerCase command) (lit ''crawl'')
          \<or> includes_str (toLowerCase command) (lit ''fetch''))
     \<and> matchUrl command \<noteq> None"
  by (auto simp add: processAgentCommand_def Let_def performWebSearch_def crawlUrl_def
      split: prod.splits option.splits)

lemma processAgentCommand_crawl:
  "\<not> (includes_str (toLowerCase command) (lit ''search'')
          \<and> includes_str (toLowerCase command) (lit ''insert'')) \<Longrightarrow>
   includes_str (toLowerCase command) (lit ''crawl'')
          \<or> includes_str (toLowerCase command) (lit ''fetch'') \<Longrightarrow>
   matchUrl command = Some u \<Longrightarrow>
     processAgentCommand e command st
       = (crawl_response (fst (crawlUrl e u)) (lit ''Crawled content from '' @ u),
          [AgentReq u (lit ''crawl_url'')], st)"
  by (auto simp add: processAgentCommand_def Let_def crawlUrl_def)

lemma modifyEditorContent_no_crawl:
  "AgentReq u (lit ''crawl_url'') \<notin> set (fst (snd (modifyEditorContent e sid a st)))"
  by (simp add: modifyEditorContent_def Let_def
      split: fetch_outcome.splits body.splits sum.splits)

lemma submit_create_and_insert_no_crawl:
  "AgentReq u (lit ''crawl_url'') \<notin> set (fst (snd (submit_create_and_insert e c sb st)))"
  by (simp add: submit_create_and_insert_def Let_def split_def
      split: fetch_outcome.splits body.splits sum.splits jsval.splits)

lemma submit_chat_no_crawl:
  "AgentReq u (lit ''crawl_url'') \<notin> set (fst (snd (submit_chat e c sb st)))"
  by (simp add: submit_chat_def Let_def
      split: fetch_outcome.splits body.splits sum.splits)

lemma handleWebSearch_no_crawl:
  "AgentReq u (lit ''crawl_url'') \<notin> set (fst (snd (handleWebSearch e q sb)))"
  by (simp add: handleWebSearch_def split: sum.splits option.splits)

lemma submit_search_no_crawl:
  "AgentReq u (lit ''crawl_url'') \<notin> set (fst (snd (submit_search e c n sb st)))"
  unfolding submit_search_calls by (rule handleWebSearch_no_crawl)

lemma handleSubmit_try_no_crawl:
  "AgentReq u (lit ''crawl_url'') \<notin> set (fst (snd (handleSubmit_try e c sb st)))"
proof (cases "detectIntent c")
  case (editor_modify a)
  then show ?thesis
    using modifyEditorContent_no_crawl [of u e "sessionId sb" a st]
    by (simp add: handleSubmit_try_def split_def Let_def)
next
  case create_and_insert
  then show ?thesis
    by (simp add: handleSubmit_try_def submit_create_and_insert_no_crawl)
next
  case (search n)
  then show ?thesis
    by (simp add: handleSubmit_try_def submit_search_no_crawl)
next
  case editor_insert
  then show ?thesis
    by (simp add: handleSubmit_try_def submit_chat_no_crawl)
next
  case chat
  then show ?thesis
    by (simp add: handleSubmit_try_def submit_chat_no_crawl)
qed

lemma handleSubmit_no_crawl:
  "AgentReq u (lit ''crawl_url'') \<notin> set (fst (snd (handleSubmit e sb st)))"
proof (cases "trim (input sb) \<noteq> [] \<and> connectionStatus sb = connected \<and> truthy_token (token e)")
  case True
  then show ?thesis
    by (simp add: handleSubmit_calls handleSubmit_try_no_crawl)
next
  case False
  then show ?thesis
    by (auto simp add: handleSubmit_def)
qed

text \<open>
  The claim that a URL in the command always gives the crawl fails: the chat sidebar
  has no such intent, and \<open>processAgentCommand\<close> crawls only for the words \<open>crawl\<close>
  and \<open>fetch\<close>, and only after its test for \<open>search\<close> with \<open>insert\<close>. A command to
  summarize a URL is answered without any request, a URL alone is searched for, and a
  command to fetch a URL that also holds \<open>search\<close> and \<open>insert\<close> is searched for.
\<close>

theorem url_counterexample:
  "matchUrl (lit ''summarize https://example.com/page'') = Some (lit ''https://example.com/page'')
   \<and> detectIntent (lit ''summarize https://example.com/page'') = editor_modify summarize
   \<and> fst (processAgentCommand ex_env (lit ''summarize https://example.com/page'') ex_editor)
       = summarize_response
           (lit ''Please provide content to summarize or specify a URL to crawl first.'')
   \<and> fst (snd (processAgentCommand ex_env (lit ''summarize https://example.com/page'') ex_editor))
       = []
   \<and> fst (snd (processAgentCommand ex_env (lit ''https://example.com/page'') ex_editor))
       = [AgentReq (lit ''https://example.com/page'') (lit ''web_search'')]
   \<and> matchUrl (lit ''fetch https://x.y search insert'') = Some (lit ''https://x.y'')
   \<and> fst (snd (processAgentCommand ex_env (lit ''fetch https://x.y search insert'') ex_editor))
       = [AgentReq (lit ''fetch https://x.y'') (lit ''web_search'')]"
  by code_simp

text \<open>
  Claim C2, amended. \<open>processAgentCommand\<close> answers with the crawl, and asks the crawl
  provider, exactly for the commands that, in lower case, contain \<open>crawl\<close> or \<open>fetch\<close>
  and not both \<open>search\<close> and \<open>insert\<close>, and in which \<open>http://\<close> or \<open>https://\<close> is
  followed by a code unit that is not white space. For such a command it makes one
  request, a crawl of the URL \<open>u\<close>, whatever transform words the command holds besides;
  \<open>u\<close> is the match of the pattern at the first position of the command that has one,
  taken from the command as it stands: one of the two schemes and the run, not empty,
  of all the code units up to the next white space or the end of the command.
  \<open>handleSubmit\<close> of the chat sidebar never asks the crawl provider.
\<close>

theorem crawl_extracts_url:
  "(((includes_str (toLowerCase command) (lit ''crawl'')
        \<or> includes_str (toLowerCase command) (lit ''fetch''))
      \<and> \<not> (includes_str (toLowerCase command) (lit ''search'')
             \<and> includes_str (toLowerCase command) (lit ''insert''))
      \<and> (\<exists>pre sch c rest. command = pre @ sch @ c # rest
             \<and> (sch = lit ''http://'' \<or> sch = lit ''https://'') \<and> \<not> isWhiteSpace c))
     \<longrightarrow> (\<exists>u before after sch tail.
            processAgentCommand e command st
              = (crawl_response (fst (crawlUrl e u)) (lit ''Crawled content from '' @ u),
                 [AgentReq u (lit ''crawl_url'')], st)
            \<and> command = before @ u @ after
            \<and> urlAt (drop (length before) command) = Some u
            \<and> (\<forall>i<length before. urlAt (drop i command) = None)
            \<and> (sch = lit ''http://'' \<or> sch = lit ''https://'')
            \<and> u = sch @ tail \<and> tail \<noteq> [] \<and> (\<forall>x\<in>set tail. \<not> isWhiteSpace x)
            \<and> (after = [] \<or> isWhiteSpace (hd after))))
   \<and> (((\<exists>c m. fst (processAgentCommand e command st) = crawl_response c m)
        \<or> (\<exists>u. AgentReq u (lit ''crawl_url'')
                  \<in> set (fst (snd (processAgentCommand e command st)))))
     \<longrightarrow> (includes_str (toLowerCase command) (lit ''crawl'')
            \<or> includes_str (toLowerCase command) (lit ''fetch''))
         \<and> \<not> (includes_str (toLowerCase command) (lit ''search'')
                \<and> includes_str (toLowerCase command) (lit ''insert''))
         \<and> (\<exists>pre sch c rest. command = pre @ sch @ c # rest
                \<and> (sch = lit ''http://'' \<or> sch = lit ''https://'') \<and> \<not> isWhiteSpace c))
   \<and> (\<forall>u. AgentReq u (lit ''crawl_url'') \<notin> set (fst (snd (handleSubmit e sb st'))))"
proof (intro conjI impI allI)
  assume a: "(includes_str (toLowerCase command) (lit ''crawl'')
        \<or> includes_str (toLowerCase command) (lit ''fetch''))
      \<and> \<not> (includes_str (toLowerCase command) (lit ''search'')
             \<and> includes_str (toLowerCase command) (lit ''insert''))
      \<and> (\<exists>pre sch c rest. command = pre @ sch @ c # rest
             \<and> (sch = lit ''http://'' \<or> sch = lit ''https://'') \<and> \<not> isWhiteSpace c)"
  then have "matchUrl command \<noteq> None"
    by (simp only: matchUrl_iff)
  then obtain u where u: "matchUrl command = Some u" by auto
  from a have k: "includes_str (toLowerCase command) (lit ''crawl'')
        \<or> includes_str (toLowerCase command) (lit ''fetch'')"
    and n: "\<not> (includes_str (toLowerCase command) (lit ''search'')
             \<and> includes_str (toLowerCase command) (lit ''insert''))"
    by blast+
  note run = processAgentCommand_crawl [OF n k u, of e st]
  from matchUrl_Some [OF u] obtain before after where
    s: "command = before @ u @ after" and at: "urlAt (drop (length before) command) = Some u"
    and left: "\<forall>i<length before. urlAt (drop i command) = None"
    by blast
  from urlAt_Some [OF at] obtain sch tail post where
    sch: "sch = lit ''http://'' \<or> sch = lit ''https://''" and ut: "u = sch @ tail"
    and ne: "tail \<noteq> []" and nws: "\<forall>c\<in>set tail. \<not> isWhiteSpace c"
    and dp: "drop (length before) command = u @ post"
    and post: "post = [] \<or> isWhiteSpace (hd post)"
    by blast
  from s dp have "post = after" by simp
  with post have after: "after = [] \<or> isWhiteSpace (hd after)" by simp
  from run s at left sch ut ne nws after
  show "\<exists>u before after sch tail.
            processAgentCommand e command st
              = (crawl_response (fst (crawlUrl e u)) (lit ''Crawled content from '' @ u),
                 [AgentReq u (lit ''crawl_url'')], st)
            \<and> command = before @ u @ after
            \<and> urlAt (drop (length before) command) = Some u
            \<and> (\<forall>i<length before. urlAt (drop i command) = None)
            \<and> (sch = lit ''http://'' \<or> sch = lit ''https://'')
            \<and> u = sch @ tail \<and> tail \<noteq> [] \<and> (\<forall>x\<in>set tail. \<not> isWhiteSpace x)
            \<and> (after = [] \<or> isWhiteSpace (hd after))"
    by blast
next
  assume b: "(\<exists>c m. fst (processAgentCommand e command st) = crawl_response c m)
        \<or> (\<exists>u. AgentReq u (lit ''crawl_url'')
                  \<in> set (fst (snd (processAgentCommand e command st))))"
  have c: "\<not> (includes_str (toLowerCase command) (lit ''search'')
             \<and> includes_str (toLowerCase command) (lit ''insert''))
         \<and> (includes_str (toLowerCase command) (lit ''crawl'')
             \<or> includes_str (toLowerCase command) (lit ''fetch''))
         \<and> matchUrl command \<noteq> None"
  proof (rule disjE [OF b])
    assume "\<exists>c m. fst (processAgentCommand e command st) = crawl_response c m"
    then show ?thesis by (rule iffD1 [OF processAgentCommand_crawl_iff])
  next
    assume "\<exists>u. AgentReq u (lit ''crawl_url'')
                  \<in> set (fst (snd (processAgentCommand e command st)))"
    then show ?thesis
      by (cases "matchUrl command")
         (auto simp add: processAgentCommand_calls split: if_splits)
  qed
  from c show "includes_str (toLowerCase command) (lit ''crawl'')
            \<or> includes_str (toLowerCase command) (lit ''fetch'')"
    by blast
  from c show "\<not> (includes_str (toLowerCase command) (lit ''search'')
                \<and> includes_str (toLowerCase command) (lit ''insert''))"
    by blast
  from c have "matchUrl command \<noteq> None" by blast
  then show "\<exists>pre sch c rest. command = pre @ sch @ c # rest
                \<and> (sch = lit ''http://'' \<or> sch = lit ''https://'') \<and> \<not> isWhiteSpace c"
    by (simp only: matchUrl_iff)
next
  fix u
  show "AgentReq u (lit ''crawl_url'') \<notin> set (fst (snd (handleSubmit e sb st')))"
    by (rule handleSubmit_no_crawl)
qed

theorem crawl_extracts_url_witness:
  "\<exists>u before after sch tail.
     processAgentCommand ex_env (lit ''Please fetch https://example.com/a and summarize'')
         ex_editor
       = (crawl_response (fst (crawlUrl ex_env u)) (lit ''Crawled content from '' @ u),
          [AgentReq u (lit ''crawl_url'')], ex_editor)
     \<and> lit ''Please fetch https://example.com/a and summarize'' = before @ u @ after
     \<and> urlAt (drop (length before) (lit ''Please fetch https://example.com/a and summarize''))
         = Some u
     \<and> (\<forall>i<length before.
           urlAt (drop i (lit ''Please fetch https://example.com/a and summarize'')) = None)
     \<and> (sch = lit ''http://'' \<or> sch = lit ''https://'')
     \<and> u = sch @ tail \<and> tail \<noteq> [] \<and> (\<forall>x\<in>set tail. \<not> isWhiteSpace x)
     \<and> (after = [] \<or> isWhiteSpace (hd after))"
proof -
  have k: "includes_str (toLowerCase (lit ''Please fetch https://example.com/a and summarize''))
             (lit ''crawl'')
           \<or> includes_str (toLowerCase (lit ''Please fetch https://example.com/a and summarize''))
               (lit ''fetch'')"
    by code_simp
  have n: "\<not> (includes_str (toLowerCase (lit ''Please fetch https://example.com/a and summarize''))
                (lit ''search'')
           \<and> includes_str (toLowerCase (lit ''Please fetch https://example.com/a and summarize''))
               (lit ''insert''))"
    by code_simp
  have c: "lit ''Please fetch https://example.com/a and summarize''
             = lit ''Please fetch '' @ lit ''https://'' @ 101 # lit ''xample.com/a and summarize''"
    by code_simp
  have ws: "\<not> isWhiteSpace 101"
    by code_simp
  have h: "\<exists>pre sch c rest.
             lit ''Please fetch https://example.com/a and summarize'' = pre @ sch @ c # rest
             \<and> (sch = lit ''http://'' \<or> sch = lit ''https://'') \<and> \<not> isWhiteSpace c"
    using c ws by blast
  note a = conjI [OF k conjI [OF n h]]
  show ?thesis
    by (rule mp [OF conjunct1 [OF crawl_extracts_url
          [of "lit ''Please fetch https://example.com/a and summarize''" ex_env ex_editor]] a])
qed

subsection \<open>An empty query\<close>

text \<open>
  The claim that an empty query is answered with an error and kept from the provider
  fails: \<open>search insert\<close> leaves nothing once its words are stripped, and the search
  provider is asked for the empty string.
\<close>

theorem empty_query_counterexample:
  "trim (replaceAllCI [lit ''search'', lit ''for'', lit ''and'', lit ''insert'', lit ''into'', lit ''editor'', lit ''please'']
           (lit ''search insert'')) = []
   \<and> fst (snd (processAgentCommand ex_env (lit ''search insert'') ex_editor))
       = [AgentReq [] (lit ''web_search'')]
   \<and> fst (processAgentCommand ex_env (lit ''search insert'') ex_editor)
       = search_and_insert_response (fst (performWebSearch ex_env []))
           (lit ''Searched for '' @ [34, 34] @ lit '' and inserted 2 results into editor.'')"
  by code_simp

text \<open>
  Claim C3, amended. Where stripping the words leaves an empty query, the empty query is
  sent on: \<open>processAgentCommand\<close>, for a command with \<open>search\<close> and \<open>insert\<close>, makes
  one request, a search for the empty string, and returns the response of a search with
  insertion; and \<open>handleSubmit\<close>, for an input with the search intent, connected and
  with a token, makes one request, a search for the empty string. Neither produces an
  error for the missing argument.
\<close>

theorem empty_query_is_sent:
  "(includes_str (toLowerCase c) (lit ''search'') \<and> includes_str (toLowerCase c) (lit ''insert'')
      \<and> trim (replaceAllCI
            [lit ''search'', lit ''for'', lit ''and'', lit ''insert'', lit ''into'', lit ''editor'', lit ''please''] c) = []
    \<longrightarrow> fst (snd (processAgentCommand e c st)) = [AgentReq [] (lit ''web_search'')]
        \<and> fst (processAgentCommand e c st)
           = search_and_insert_response (fst (performWebSearch e []))
               (lit ''Searched for '' @ [34, 34] @ lit '' and inserted ''
                @ showNat (length (results (fst (performWebSearch e []))))
                @ lit '' results into editor.''))
   \<and> (detectIntent (input sb) = search needsEditor
      \<and> trim (replaceAllCI
            [lit ''search'', lit ''find'', lit ''look up'', lit ''for'', lit ''please'', lit ''insert'', lit ''add'']
            (input sb)) = []
      \<and> trim (input sb) \<noteq> [] \<and> connectionStatus sb = connected \<and> truthy_token (token e)
    \<longrightarrow> fst (snd (handleSubmit e sb st)) = [AgentReq [] (lit ''web_search'')])"
proof (intro conjI impI)
  assume a: "includes_str (toLowerCase c) (lit ''search'') \<and> includes_str (toLowerCase c) (lit ''insert'')
      \<and> trim (replaceAllCI
            [lit ''search'', lit ''for'', lit ''and'', lit ''insert'', lit ''into'', lit ''editor'', lit ''please''] c) = []"
  then show "fst (snd (processAgentCommand e c st)) = [AgentReq [] (lit ''web_search'')]"
    by (simp add: processAgentCommand_def Let_def performWebSearch_def split: prod.splits)
  from a show "fst (processAgentCommand e c st)
           = search_and_insert_response (fst (performWebSearch e []))
               (lit ''Searched for '' @ [34, 34] @ lit '' and inserted ''
                @ showNat (length (results (fst (performWebSearch e []))))
                @ lit '' results into editor.'')"
    by (simp add: processAgentCommand_def Let_def performWebSearch_def split: prod.splits)
next
  assume a: "detectIntent (input sb) = search needsEditor
      \<and> trim (replaceAllCI
            [lit ''search'', lit ''find'', lit ''look up'', lit ''for'', lit ''please'', lit ''insert'', lit ''add'']
            (input sb)) = []
      \<and> trim (input sb) \<noteq> [] \<and> connectionStatus sb = connected \<and> truthy_token (token e)"
  then have "fst (snd (handleSubmit e sb st))
       = fst (snd (submit_search e (input sb) needsEditor
           (sb\<lparr>messages := messages sb @ [\<lparr>msg_content = JStr (input sb), msg_role = user,
                             hasEditorAction = None, editorActionType = None,
                             editorContent = None\<rparr>], input := [], isLoading := True\<rparr>) st))"
    by (simp add: handleSubmit_calls handleSubmit_try_def)
  with a show "fst (snd (handleSubmit e sb st)) = [AgentReq [] (lit ''web_search'')]"
    by (simp add: submit_search_calls handleWebSearch_calls)
qed

theorem empty_query_is_sent_witness:
  "fst (snd (processAgentCommand ex_env (lit ''search insert'') ex_editor))
     = [AgentReq [] (lit ''web_search'')]
   \<and> fst (snd (handleSubmit ex_env ex_sidebar ex_editor)) = [AgentReq [] (lit ''web_search'')]"
proof -
  have a: "includes_str (toLowerCase (lit ''search insert'')) (lit ''search'')
           \<and> includes_str (toLowerCase (lit ''search insert'')) (lit ''insert'')
           \<and> trim (replaceAllCI
                [lit ''search'', lit ''for'', lit ''and'', lit ''insert'', lit ''into'', lit ''editor'', lit ''please'']
                (lit ''search insert'')) = []"
    by code_simp
  have i: "input ex_sidebar = lit ''please search for''"
    by (simp add: ex_sidebar_def)
  have d: "detectIntent (lit ''please search for'') = search False"
    by code_simp
  have t: "trim (replaceAllCI
             [lit ''search'', lit ''find'', lit ''look up'', lit ''for'', lit ''please'', lit ''insert'', lit ''add'']
             (lit ''please search for'')) = []"
    by code_simp
  have n: "trim (lit ''please search for'') \<noteq> []"
    by code_simp
  have b1: "detectIntent (input ex_sidebar) = search False"
    unfolding i by (rule d)
  have b2: "trim (replaceAllCI
             [lit ''search'', lit ''find'', lit ''look up'', lit ''for'', lit ''please'', lit ''insert'', lit ''add'']
             (input ex_sidebar)) = []"
    unfolding i by (rule t)
  have b3: "trim (input ex_sidebar) \<noteq> []"
    unfolding i by (rule n)
  have b4: "connectionStatus ex_sidebar = connected"
    by (simp add: ex_sidebar_def)
  have b5: "truthy_token (token ex_env)"
    by code_simp
  note b = conjI [OF b1 conjI [OF b2 conjI [OF b3 conjI [OF b4 b5]]]]
  note th = empty_query_is_sent [of "lit ''search insert''" ex_env ex_editor ex_sidebar False]
  have p: "fst (snd (processAgentCommand ex_env (lit ''search insert'') ex_editor))
             = [AgentReq [] (lit ''web_search'')]"
    by (rule conjunct1 [OF mp [OF conjunct1 [OF th] a]])
  have h: "fst (snd (handleSubmit ex_env ex_sidebar ex_editor)) = [AgentReq [] (lit ''web_search'')]"
    by (rule mp [OF conjunct2 [OF th] b])
  from p h show ?thesis by (rule conjI)
qed

subsection \<open>The search dispatcher\<close>



end
